theory Spec2Isabelle
  imports Complex_Main "HOL-Library.Multiset" "HOL-Library.Log_Nat"
begin

section \<open>BlenderFDS triangulated surfaces: the data the code works on\<close>

text \<open>
  The module \<^verbatim>\<open>geometry/calc_trisurfaces.py\<close> reads a Blender object, its material
  slots and an evaluated \<^verbatim>\<open>BMesh\<close>, and either returns the triple
  \<^verbatim>\<open>(mas, verts, faces)\<close> or raises \<^verbatim>\<open>BFException\<close>.  A finite Python float is
  identified with the real number it denotes, so that comparing two floats is comparing
  two reals; the one arithmetic operation the module performs on floats, the product of a
  coordinate and the scale, is the rounded product \<open>float_mul\<close> defined below.
  Attributes that Blender computes for a mesh element
  (\<^verbatim>\<open>is_manifold\<close>, \<^verbatim>\<open>is_contiguous\<close>, \<^verbatim>\<open>calc_length()\<close>, \<^verbatim>\<open>calc_area()\<close>,
  \<^verbatim>\<open>link_edges\<close>, \<^verbatim>\<open>normal\<close>) are fields of the element: the code only reads them.
  Elements are referred to by their position in \<^verbatim>\<open>bm.verts\<close>, \<^verbatim>\<open>bm.edges\<close> and
  \<^verbatim>\<open>bm.faces\<close>, which is also the value of their \<^verbatim>\<open>index\<close> attribute.
\<close>

type_synonym vec = "real \<times> real \<times> real"

datatype exn = BFException string string | IndexError | ValueError | RuntimeError | TypeError

record material =
  ma_name :: string
  bf_surf_export :: bool

record 'm bpy_object =
  ob_name :: string
  material_slots :: "material option list"
  matrix_world :: 'm

record bm_vert =
  co :: vec
  v_is_manifold :: bool
  link_edges :: "nat list"
  v_select :: bool

record bm_edge =
  e_is_manifold :: bool
  is_contiguous :: bool
  calc_length :: real
  e_select :: bool

record bm_face =
  f_verts :: "nat list"
  material_index :: nat
  calc_area :: real
  f_normal :: vec
  f_select :: bool

record bmesh =
  verts :: "bm_vert list"
  edges :: "bm_edge list"
  faces :: "bm_face list"
  is_valid :: bool

datatype object_mode = OBJECT | EDIT

datatype select_type = VERT | EDGE | FACE

text \<open>
  The part of the host that the module reads or writes through \<^verbatim>\<open>context\<close>,
  \<^verbatim>\<open>bpy.ops\<close> and \<^verbatim>\<open>ob\<close>: the two scene tolerances, the active object, the
  interaction mode, the selected objects, the mesh select mode, and per object (by
  name) its modifier stack and its mesh datablock.
\<close>

record scene =
  bf_config_min_edge_length :: real
  bf_config_min_face_area :: real
  active_object :: "string option"
  mode :: object_mode
  selected_objects :: "string list"
  mesh_select_mode :: "select_type option"
  ob_modifiers :: "string \<Rightarrow> string list"
  ob_data :: "string \<Rightarrow> bmesh"

text \<open>
  Operations the module calls but does not define.  \<^verbatim>\<open>utils.get_object_bmesh\<close>
  belongs to the repository but is not among its sources here; the others are Blender's
  (\<^verbatim>\<open>bmesh.ops.recalc_face_normals\<close>, \<^verbatim>\<open>Matrix.inverted\<close>, the matrix product
  \<^verbatim>\<open>@\<close>, \<^verbatim>\<open>BVHTree.FromBMesh\<close>, \<^verbatim>\<open>BVHTree.overlap\<close>).  They are parameters of
  the model, so every general theorem holds whatever they compute.  The arguments of
  \<open>get_object_bmesh\<close> are \<^verbatim>\<open>context, ob, matrix, world, triangulate, lookup\<close>; an
  argument a call leaves out is \<open>None\<close> or \<open>False\<close>.  \<open>inverted\<close> is \<open>None\<close>
  where Blender raises \<^verbatim>\<open>ValueError\<close> (a singular matrix).
\<close>

record ('m, 't) host =
  get_object_bmesh :: "scene \<Rightarrow> 'm bpy_object \<Rightarrow> 'm option \<Rightarrow> bool \<Rightarrow> bool \<Rightarrow> bool \<Rightarrow> exn + bmesh"
  recalc_face_normals :: "bmesh \<Rightarrow> bmesh"
  inverted :: "'m \<Rightarrow> 'm option"
  matmul :: "'m \<Rightarrow> 'm \<Rightarrow> 'm"
  FromBMesh :: "bmesh \<Rightarrow> real \<Rightarrow> 't"
  overlap :: "'t \<Rightarrow> 't \<Rightarrow> (nat \<times> nat) list"

type_synonym outcome = "(exn + unit) \<times> bmesh \<times> scene"

section \<open>Formatting of counts in messages\<close>

definition digit_char :: "nat \<Rightarrow> char" where
  "digit_char d = ''0123456789'' ! d"

fun str_nat :: "nat \<Rightarrow> string" where
  "str_nat n = (if n < 10 then [digit_char n] else str_nat (n div 10) @ [digit_char (n mod 10)])"

declare str_nat.simps [simp del]

section \<open>Materials\<close>

text \<open>
  \<^verbatim>\<open>_get_materials\<close>: the three messages are the failures the specification calls
  \<open>NoMaterial\<close>, \<open>EmptyMaterialSlot\<close> and \<open>MaterialNotExported\<close>.
\<close>

definition NoMaterial :: "string \<Rightarrow> exn" where
  "NoMaterial ob = BFException ob ''No referenced SURF, add at least one Material''"

definition EmptyMaterialSlot :: "string \<Rightarrow> exn" where
  "EmptyMaterialSlot ob =
     BFException ob ''No referenced SURF, fill empty slot with at least one Material''"

definition MaterialNotExported :: "string \<Rightarrow> string \<Rightarrow> exn" where
  "MaterialNotExported ob nm = BFException ob (''Referenced SURF <'' @ nm @ ''> is not exported'')"

fun get_materials_loop :: "string \<Rightarrow> material option list \<Rightarrow> string list \<Rightarrow> exn + string list" where
  "get_materials_loop ob [] mas = Inr mas"
| "get_materials_loop ob (None # slots) mas = Inl (EmptyMaterialSlot ob)"
| "get_materials_loop ob (Some ma # slots) mas =
     (if \<not> bf_surf_export ma then Inl (MaterialNotExported ob (ma_name ma))
      else get_materials_loop ob slots (mas @ [ma_name ma]))"

definition get_materials :: "scene \<Rightarrow> 'm bpy_object \<Rightarrow> exn + string list" where
  "get_materials cx ob =
     (if length (material_slots ob) = 0 then Inl (NoMaterial (ob_name ob))
      else get_materials_loop (ob_name ob) (material_slots ob) [])"

section \<open>Raising bad geometry\<close>

definition deselect_all :: "bmesh \<Rightarrow> bmesh" where
  "deselect_all bm =
     bm\<lparr>verts := map (\<lambda>v. v\<lparr>v_select := False\<rparr>) (verts bm),
        edges := map (\<lambda>e. e\<lparr>e_select := False\<rparr>) (edges bm),
        faces := map (\<lambda>f. f\<lparr>f_select := False\<rparr>) (faces bm)\<rparr>"

definition select_verts :: "nat list \<Rightarrow> bmesh \<Rightarrow> bmesh" where
  "select_verts bad bm =
     bm\<lparr>verts := fold (\<lambda>i vs. vs[i := (vs ! i)\<lparr>v_select := True\<rparr>]) bad (verts bm)\<rparr>"

definition select_edges :: "nat list \<Rightarrow> bmesh \<Rightarrow> bmesh" where
  "select_edges bad bm =
     bm\<lparr>edges := fold (\<lambda>i es. es[i := (es ! i)\<lparr>e_select := True\<rparr>]) bad (edges bm)\<rparr>"

definition select_faces :: "nat list \<Rightarrow> bmesh \<Rightarrow> bmesh" where
  "select_faces bad bm =
     bm\<lparr>faces := fold (\<lambda>i fs. fs[i := (fs ! i)\<lparr>f_select := True\<rparr>]) bad (faces bm)\<rparr>"

text \<open>
  \<^verbatim>\<open>BMesh.to_mesh(ob.data)\<close> raises \<^verbatim>\<open>ValueError\<close> when the mesh \<open>ob.data\<close> is
  in edit mode.  Entering edit mode takes the active object and the selected objects of
  its type into it and leaving it takes all of them out, so the mesh of an object is in
  edit mode when the host is in edit mode and the object is the active one or a selected
  one.
\<close>

definition is_editmode :: "scene \<Rightarrow> 'm bpy_object \<Rightarrow> bool" where
  "is_editmode cx ob =
     (mode cx = EDIT \<and>
      (active_object cx = Some (ob_name ob) \<or> ob_name ob \<in> set (selected_objects cx)))"

text \<open>
  \<^verbatim>\<open>_raise_bad_geometry\<close> never returns normally.  With \<open>protect\<close> it raises
  \<^verbatim>\<open>BFException\<close> at once.  Otherwise it deselects every element
  (\<^verbatim>\<open>select_flush(False)\<close> after all vertices are deselected leaves no edge or face
  selected), selects the bad elements, clears the object's modifiers and writes the mesh
  back to \<^verbatim>\<open>ob.data\<close>; when that mesh is in edit mode \<^verbatim>\<open>to_mesh\<close> raises
  \<^verbatim>\<open>ValueError\<close> and the function ends there, the elements selected and the modifiers
  cleared.  Otherwise it frees the mesh, leaves edit mode if there is an active object,
  makes \<open>ob\<close> the only selected and the active object, enters edit mode, sets the select
  mode of the bad elements (\<^verbatim>\<open>select_mode(type=None)\<close>, when no bad element was given,
  raises \<^verbatim>\<open>TypeError\<close>), and raises \<^verbatim>\<open>BFException\<close>.
\<close>

definition raise_bad_geometry ::
  "scene \<Rightarrow> 'm bpy_object \<Rightarrow> bmesh \<Rightarrow> string \<Rightarrow> bool \<Rightarrow> nat list \<Rightarrow> nat list \<Rightarrow> nat list \<Rightarrow> outcome" where
  "raise_bad_geometry cx ob bm msg protect bad_verts bad_edges bad_faces =
     (if protect then (Inl (BFException (ob_name ob) msg), bm, cx)
      else
        let bm1 = deselect_all bm;
            st0 = (None, bm1);
            st1 = (if bad_faces \<noteq> [] then (Some FACE, select_faces bad_faces (snd st0)) else st0);
            st2 = (if bad_edges \<noteq> [] then (Some EDGE, select_edges bad_edges (snd st1)) else st1);
            st3 = (if bad_verts \<noteq> [] then (Some VERT, select_verts bad_verts (snd st2)) else st2);
            select_type = fst st3;
            bm2 = snd st3;
            cx1 = cx\<lparr>ob_modifiers := (ob_modifiers cx)(ob_name ob := [])\<rparr>
        in
          if is_editmode cx1 ob then (Inl ValueError, bm2, cx1)
          else
            let cx2 = cx1\<lparr>ob_data := (ob_data cx1)(ob_name ob := bm2)\<rparr>;
                bm3 = bm2\<lparr>is_valid := False\<rparr>;
                cx3 = (if active_object cx2 \<noteq> None then cx2\<lparr>mode := OBJECT\<rparr> else cx2);
                cx4 = cx3\<lparr>selected_objects := []\<rparr>;
                cx5 = cx4\<lparr>selected_objects := ob_name ob # selected_objects cx4\<rparr>;
                cx6 = cx5\<lparr>active_object := Some (ob_name ob)\<rparr>;
                cx7 = cx6\<lparr>mode := EDIT\<rparr>
            in
              if select_type = None then (Inl TypeError, bm3, cx7)
              else (Inl (BFException (ob_name ob) msg), bm3, cx7\<lparr>mesh_select_mode := select_type\<rparr>))"

section \<open>Quality checks\<close>

text \<open>
  Each \<^verbatim>\<open>_check_bm_...\<close> function collects the bad elements in the order of the mesh
  and, when there are any, calls \<open>raise_bad_geometry\<close> with a message that counts them.
\<close>

definition bad_manifold_verts :: "bmesh \<Rightarrow> nat list" where
  "bad_manifold_verts bm =
     filter (\<lambda>i. \<not> v_is_manifold (verts bm ! i)) [0..<length (verts bm)]"

definition check_bm_manifold_verts ::
  "scene \<Rightarrow> 'm bpy_object \<Rightarrow> bmesh \<Rightarrow> real \<Rightarrow> real \<Rightarrow> bool \<Rightarrow> outcome" where
  "check_bm_manifold_verts cx ob bm epsilon_len epsilon_area protect =
     (let bad_verts = bad_manifold_verts bm in
      if bad_verts \<noteq> [] then
        raise_bad_geometry cx ob bm
          (''Non manifold vertices detected ('' @ str_nat (length bad_verts) @ '' vertices).'')
          protect bad_verts [] []
      else (Inr (), bm, cx))"

definition bad_manifold_edges :: "bmesh \<Rightarrow> nat list" where
  "bad_manifold_edges bm =
     filter (\<lambda>i. \<not> e_is_manifold (edges bm ! i)) [0..<length (edges bm)]"

definition check_bm_manifold_edges ::
  "scene \<Rightarrow> 'm bpy_object \<Rightarrow> bmesh \<Rightarrow> real \<Rightarrow> real \<Rightarrow> bool \<Rightarrow> outcome" where
  "check_bm_manifold_edges cx ob bm epsilon_len epsilon_area protect =
     (let bad_edges = bad_manifold_edges bm in
      if bad_edges \<noteq> [] then
        raise_bad_geometry cx ob bm
          (''Non manifold or open geometry detected ('' @ str_nat (length bad_edges) @ '' edges).'')
          protect [] bad_edges []
      else (Inr (), bm, cx))"

definition bad_normal_edges :: "bmesh \<Rightarrow> nat list" where
  "bad_normal_edges bm =
     filter (\<lambda>i. \<not> is_contiguous (edges bm ! i)) [0..<length (edges bm)]"

text \<open>
  \<^verbatim>\<open>_check_bm_normals\<close>: after the test, when \<open>protect\<close> is false, the face normals
  of the mesh are recalculated.
\<close>

definition check_bm_normals ::
  "('m, 't) host \<Rightarrow> scene \<Rightarrow> 'm bpy_object \<Rightarrow> bmesh \<Rightarrow> real \<Rightarrow> real \<Rightarrow> bool \<Rightarrow> outcome" where
  "check_bm_normals H cx ob bm epsilon_len epsilon_area protect =
     (let bad_edges = bad_normal_edges bm in
      if bad_edges \<noteq> [] then
        raise_bad_geometry cx ob bm
          (''Inconsistent face normals detected ('' @ str_nat (length bad_edges) @ '' edges).'')
          protect [] bad_edges []
      else if \<not> protect then (Inr (), recalc_face_normals H bm, cx)
      else (Inr (), bm, cx))"

definition bad_degenerate_edges :: "bmesh \<Rightarrow> real \<Rightarrow> nat list" where
  "bad_degenerate_edges bm epsilon_len =
     filter (\<lambda>i. calc_length (edges bm ! i) \<le> epsilon_len) [0..<length (edges bm)]"

definition check_bm_degenerate_edges ::
  "scene \<Rightarrow> 'm bpy_object \<Rightarrow> bmesh \<Rightarrow> real \<Rightarrow> real \<Rightarrow> bool \<Rightarrow> outcome" where
  "check_bm_degenerate_edges cx ob bm epsilon_len epsilon_area protect =
     (let bad_edges = bad_degenerate_edges bm epsilon_len in
      if bad_edges \<noteq> [] then
        raise_bad_geometry cx ob bm
          (''Too short edges detected ('' @ str_nat (length bad_edges) @ '' edges).'')
          protect [] bad_edges []
      else (Inr (), bm, cx))"

definition bad_degenerate_faces :: "bmesh \<Rightarrow> real \<Rightarrow> nat list" where
  "bad_degenerate_faces bm epsilon_area =
     filter (\<lambda>i. calc_area (faces bm ! i) \<le> epsilon_area) [0..<length (faces bm)]"

definition check_bm_degenerate_faces ::
  "scene \<Rightarrow> 'm bpy_object \<Rightarrow> bmesh \<Rightarrow> real \<Rightarrow> real \<Rightarrow> bool \<Rightarrow> outcome" where
  "check_bm_degenerate_faces cx ob bm epsilon_len epsilon_area protect =
     (let bad_faces = bad_degenerate_faces bm epsilon_area in
      if bad_faces \<noteq> [] then
        raise_bad_geometry cx ob bm
          (''Too small area faces detected ('' @ str_nat (length bad_faces) @ '' faces).'')
          protect [] [] bad_faces
      else (Inr (), bm, cx))"

definition bad_loose_vertices :: "bmesh \<Rightarrow> nat list" where
  "bad_loose_vertices bm =
     filter (\<lambda>i. link_edges (verts bm ! i) = []) [0..<length (verts bm)]"

definition check_bm_loose_vertices ::
  "scene \<Rightarrow> 'm bpy_object \<Rightarrow> bmesh \<Rightarrow> real \<Rightarrow> real \<Rightarrow> bool \<Rightarrow> outcome" where
  "check_bm_loose_vertices cx ob bm epsilon_len epsilon_area protect =
     (let bad_verts = bad_loose_vertices bm in
      if bad_verts \<noteq> [] then
        raise_bad_geometry cx ob bm
          (''Loose vertices detected ('' @ str_nat (length bad_verts) @ '' vertices).'')
          protect bad_verts [] []
      else (Inr (), bm, cx))"

subsection \<open>Duplicate vertices\<close>

text \<open>
  \<^verbatim>\<open>mathutils.kdtree\<close>: after \<^verbatim>\<open>insert(co, i)\<close> for every vertex and
  \<^verbatim>\<open>balance()\<close>, \<^verbatim>\<open>find_range(co, r)\<close> yields the inserted points within distance
  \<open>r\<close> of \<open>co\<close>, and raises \<^verbatim>\<open>RuntimeError\<close> when \<open>r\<close> is negative.  Blender
  compares the squared distance with \<open>r * r\<close>.  Only the indices are used by the caller,
  and only for membership and count, so the points found are listed by index instead of
  by distance.
\<close>

definition dist_sq :: "vec \<Rightarrow> vec \<Rightarrow> real" where
  "dist_sq a b =
     (case a of (ax, ay, az) \<Rightarrow> case b of (bx, b_y, bz) \<Rightarrow>
        (ax - bx) * (ax - bx) + (ay - b_y) * (ay - b_y) + (az - bz) * (az - bz))"

definition in_range :: "real \<Rightarrow> vec \<Rightarrow> vec \<Rightarrow> bool" where
  "in_range r a b = (dist_sq a b \<le> r * r)"

definition points_in_range :: "vec list \<Rightarrow> vec \<Rightarrow> real \<Rightarrow> nat list" where
  "points_in_range kd c r = filter (\<lambda>i. in_range r (kd ! i) c) [0..<length kd]"

definition find_range :: "vec list \<Rightarrow> vec \<Rightarrow> real \<Rightarrow> exn + nat list" where
  "find_range kd c r = (if r < 0 then Inl RuntimeError else Inr (points_in_range kd c r))"

fun duplicate_loop :: "vec list \<Rightarrow> real \<Rightarrow> vec list \<Rightarrow> nat list \<Rightarrow> exn + nat list" where
  "duplicate_loop kd epsilon_len [] bad_verts = Inr bad_verts"
| "duplicate_loop kd epsilon_len (c # cs) bad_verts =
     (case find_range kd c epsilon_len of
        Inl e \<Rightarrow> Inl e
      | Inr vert_group \<Rightarrow>
          duplicate_loop kd epsilon_len cs
            (if length vert_group > 1 then bad_verts @ vert_group else bad_verts))"

definition bad_duplicate_vertices :: "bmesh \<Rightarrow> real \<Rightarrow> exn + nat list" where
  "bad_duplicate_vertices bm epsilon_len =
     (let kd = map co (verts bm) in duplicate_loop kd epsilon_len (map co (verts bm)) [])"

definition check_bm_duplicate_vertices ::
  "scene \<Rightarrow> 'm bpy_object \<Rightarrow> bmesh \<Rightarrow> real \<Rightarrow> real \<Rightarrow> bool \<Rightarrow> outcome" where
  "check_bm_duplicate_vertices cx ob bm epsilon_len epsilon_area protect =
     (case bad_duplicate_vertices bm epsilon_len of
        Inl e \<Rightarrow> (Inl e, bm, cx)
      | Inr bad_verts \<Rightarrow>
          if bad_verts \<noteq> [] then
            raise_bad_geometry cx ob bm
              (''Duplicate vertices detected ('' @ str_nat (length bad_verts) @ '' vertices).'')
              protect bad_verts [] []
          else (Inr (), bm, cx))"

subsection \<open>The validator\<close>

text \<open>
  Statements in sequence: when one raises, the exception and the state it left are the
  result and the rest does not run.
\<close>

definition and_then :: "outcome \<Rightarrow> (bmesh \<Rightarrow> scene \<Rightarrow> outcome) \<Rightarrow> outcome" where
  "and_then r k = (case r of (Inl e, bm, cx) \<Rightarrow> (Inl e, bm, cx) | (Inr u, bm, cx) \<Rightarrow> k bm cx)"

definition check_bm_quality ::
  "('m, 't) host \<Rightarrow> scene \<Rightarrow> 'm bpy_object \<Rightarrow> bmesh \<Rightarrow> bool \<Rightarrow> outcome" where
  "check_bm_quality H cx ob bm protect =
     (let epsilon_len = bf_config_min_edge_length cx;
          epsilon_area = bf_config_min_face_area cx in
      and_then (check_bm_manifold_verts cx ob bm epsilon_len epsilon_area protect) (\<lambda>bm cx.
      and_then (check_bm_manifold_edges cx ob bm epsilon_len epsilon_area protect) (\<lambda>bm cx.
      and_then (check_bm_degenerate_edges cx ob bm epsilon_len epsilon_area protect) (\<lambda>bm cx.
      and_then (check_bm_degenerate_faces cx ob bm epsilon_len epsilon_area protect) (\<lambda>bm cx.
      and_then (check_bm_loose_vertices cx ob bm epsilon_len epsilon_area protect) (\<lambda>bm cx.
      and_then (check_bm_duplicate_vertices cx ob bm epsilon_len epsilon_area protect) (\<lambda>bm cx.
      check_bm_normals H cx ob bm epsilon_len epsilon_area protect)))))))"

text \<open>\<^verbatim>\<open>check_geom_quality\<close>: the mesh is local; on success it is freed.\<close>

definition check_geom_quality ::
  "('m, 't) host \<Rightarrow> scene \<Rightarrow> 'm bpy_object \<Rightarrow> bool \<Rightarrow> (exn + unit) \<times> scene" where
  "check_geom_quality H cx ob protect =
     (case get_object_bmesh H cx ob None False True True of
        Inl e \<Rightarrow> (Inl e, cx)
      | Inr bm \<Rightarrow>
          (case check_bm_quality H cx ob bm protect of
             (Inl e, bm1, cx1) \<Rightarrow> (Inl e, cx1)
           | (Inr u, bm1, cx1) \<Rightarrow> (Inr (), cx1)))"

section \<open>Extraction of the triangulated surface\<close>

type_synonym xbs_face = "nat \<times> nat \<times> nat \<times> nat"

text \<open>
  The loop over \<^verbatim>\<open>bm.faces\<close>: \<^verbatim>\<open>v[0]\<close>, \<^verbatim>\<open>v[1]\<close>, \<^verbatim>\<open>v[2]\<close> are the first
  three vertices of the face; a face with fewer raises \<^verbatim>\<open>IndexError\<close>.
\<close>

fun extract_faces :: "bm_face list \<Rightarrow> xbs_face list \<Rightarrow> exn + xbs_face list" where
  "extract_faces [] acc = Inr acc"
| "extract_faces (f # fs) acc =
     (case f_verts f of
        v0 # v1 # v2 # rest \<Rightarrow>
          extract_faces fs (acc @ [(v0 + 1, v1 + 1, v2 + 1, material_index f + 1)])
      | _ \<Rightarrow> Inl IndexError)"

subsection \<open>The product of two floats\<close>

text \<open>
  The product \<^verbatim>\<open>co.x * scale_length\<close> of two Python floats is the IEEE 754 binary64
  product: the exact product rounded to the nearest number with a 53-bit significand and
  an exponent not below that of the subnormal numbers, ties going to the even
  significand, and an infinity when the rounded value is beyond the largest finite
  double.  \<open>ilog2 x\<close> is the integer part of the binary logarithm of a positive \<open>x\<close>.
  The sign of a zero result is not kept (Python's \<^verbatim>\<open>0.0\<close> and \<^verbatim>\<open>-0.0\<close> are equal).
\<close>

datatype pyfloat = Finite real | Infinity bool

definition ilog2 :: "real \<Rightarrow> int" where
  "ilog2 x = (if 1 \<le> x then bitlen \<lfloor>x\<rfloor> - 1 else - bitlen (\<lceil>1 / x\<rceil> - 1))"

definition pow2 :: "int \<Rightarrow> real" where
  "pow2 e = (if 0 \<le> e then 2 ^ nat e else 1 / 2 ^ nat (- e))"

definition round_half_even :: "real \<Rightarrow> int" where
  "round_half_even x =
     (let n = \<lfloor>x\<rfloor>; d = x - of_int n in
      if d < 1 / 2 then n else if 1 / 2 < d then n + 1 else if even n then n else n + 1)"

definition float_round :: "real \<Rightarrow> pyfloat" where
  "float_round x =
     (if x = 0 then Finite 0
      else
        let e = max (ilog2 \<bar>x\<bar> - 52) (- 1074);
            m = round_half_even (\<bar>x\<bar> / pow2 e);
            y = of_int m * pow2 e
        in if 2 ^ 1024 \<le> y then Infinity (x < 0) else Finite (if x < 0 then - y else y))"

definition float_mul :: "real \<Rightarrow> real \<Rightarrow> pyfloat" where
  "float_mul x y = float_round (x * y)"

text \<open>The real numbers that are binary64 numbers.\<close>

definition is_double :: "real \<Rightarrow> bool" where
  "is_double x =
     (x = 0 \<or>
      (let e = max (ilog2 \<bar>x\<bar> - 52) (- 1074);
           t = \<bar>x\<bar> / pow2 e
       in of_int \<lfloor>t\<rfloor> = t \<and> \<bar>x\<bar> < 2 ^ 1024))"

text \<open>
  The products of a magnitude between the least normal binary64 number, \<open>2 ^ - 1022\<close>,
  and \<open>2 ^ 1023\<close>: rounding them neither underflows nor overflows.
\<close>

definition normal_range :: "real \<Rightarrow> bool" where
  "normal_range p = (pow2 (- 1022) \<le> \<bar>p\<bar> \<and> \<bar>p\<bar> \<le> 2 ^ 1023)"

subsection \<open>The exported surface\<close>

type_synonym xbs_vert = "pyfloat \<times> pyfloat \<times> pyfloat"

definition scale_co :: "real \<Rightarrow> vec \<Rightarrow> xbs_vert" where
  "scale_co scale_length c =
     (case c of (x, y, z) \<Rightarrow>
        (float_mul x scale_length, float_mul y scale_length, float_mul z scale_length))"

text \<open>
  \<^verbatim>\<open>get_trisurface(context, ob, scale_length, check, terrain)\<close>.  The mesh is
  local to the call and freed before returning.
\<close>

definition get_trisurface ::
  "('m, 't) host \<Rightarrow> scene \<Rightarrow> 'm bpy_object \<Rightarrow> real \<Rightarrow> bool \<Rightarrow> bool \<Rightarrow>
     (exn + string list \<times> xbs_vert list \<times> xbs_face list) \<times> scene" where
  "get_trisurface H cx ob scale_length check terrain =
     (case get_materials cx ob of
        Inl e \<Rightarrow> (Inl e, cx)
      | Inr mas \<Rightarrow>
          (case get_object_bmesh H cx ob None True True False of
             Inl e \<Rightarrow> (Inl e, cx)
           | Inr bm \<Rightarrow>
               (case (if check then check_bm_quality H cx ob bm True else (Inr (), bm, cx)) of
                  (Inl e, bm1, cx1) \<Rightarrow> (Inl e, cx1)
                | (Inr u, bm1, cx1) \<Rightarrow>
                    (let vs = map (\<lambda>v. scale_co scale_length (co v)) (verts bm1) in
                     case extract_faces (faces bm1) [] of
                       Inl e \<Rightarrow> (Inl e, cx1)
                     | Inr fs \<Rightarrow> (Inr (mas, vs, fs), cx1)))))"

section \<open>Intersections\<close>

text \<open>
  \<^verbatim>\<open>_get_bm_intersected_faces\<close>: the first components of the overlapping pairs, each
  once (the iteration order of the Python set is not modelled: first occurrences are
  kept), looked up in \<^verbatim>\<open>bm.faces\<close>.
\<close>

definition get_bm_intersected_faces ::
  "('m, 't) host \<Rightarrow> bmesh \<Rightarrow> 't \<Rightarrow> 't \<Rightarrow> exn + nat list" where
  "get_bm_intersected_faces H bm tree other_tree =
     (let ov = overlap H tree other_tree in
      if ov \<noteq> [] then
        (let ifaces = remdups (map fst ov) in
         if list_all (\<lambda>iface. iface < length (faces bm)) ifaces then Inr ifaces
         else Inl IndexError)
      else Inr [])"

text \<open>The loop of \<^verbatim>\<open>check_intersections\<close> over \<^verbatim>\<open>other_obs\<close>.\<close>

fun check_others ::
  "('m, 't) host \<Rightarrow> scene \<Rightarrow> 'm bpy_object \<Rightarrow> bmesh \<Rightarrow> 't \<Rightarrow> real \<Rightarrow> 'm bpy_object list \<Rightarrow>
     nat list \<Rightarrow> exn + nat list" where
  "check_others H cx ob bm tree epsilon_len [] bad_faces = Inr bad_faces"
| "check_others H cx ob bm tree epsilon_len (other_ob # rest) bad_faces =
     (case inverted H (matrix_world ob) of
        None \<Rightarrow> Inl ValueError
      | Some inv_world \<Rightarrow>
          (let matrix = matmul H inv_world (matrix_world other_ob) in
           case get_object_bmesh H cx ob (Some matrix) False False True of
             Inl e \<Rightarrow> Inl e
           | Inr other_bm \<Rightarrow>
               (let other_tree = FromBMesh H other_bm epsilon_len in
                case get_bm_intersected_faces H bm tree other_tree of
                  Inl e \<Rightarrow> Inl e
                | Inr fs \<Rightarrow> check_others H cx ob bm tree epsilon_len rest (bad_faces @ fs))))"

definition mode_set_object :: "scene \<Rightarrow> scene" where
  "mode_set_object cx = (if active_object cx \<noteq> None then cx\<lparr>mode := OBJECT\<rparr> else cx)"

definition check_intersections ::
  "('m, 't) host \<Rightarrow> scene \<Rightarrow> 'm bpy_object \<Rightarrow> 'm bpy_object list \<Rightarrow> bool \<Rightarrow> (exn + unit) \<times> scene" where
  "check_intersections H cx ob other_obs protect =
     (let cx1 = mode_set_object cx;
          epsilon_len = bf_config_min_edge_length cx1 in
      case get_object_bmesh H cx1 ob None False False True of
        Inl e \<Rightarrow> (Inl e, cx1)
      | Inr bm \<Rightarrow>
          (let tree = FromBMesh H bm epsilon_len in
           case get_bm_intersected_faces H bm tree tree of
             Inl e \<Rightarrow> (Inl e, cx1)
           | Inr self_faces \<Rightarrow>
               (case check_others H cx1 ob bm tree epsilon_len other_obs self_faces of
                  Inl e \<Rightarrow> (Inl e, cx1)
                | Inr bad_faces \<Rightarrow>
                    if bad_faces \<noteq> [] then
                      (case raise_bad_geometry cx1 ob bm ''Intersection detected.'' protect
                              [] [] bad_faces of
                         (r, bm1, cx2) \<Rightarrow> (r, cx2))
                    else (Inr (), cx1))))"

text \<open>
  For comparison with \<open>check_others\<close>, the loop over the other objects as the
  specification words it: the mesh of the other object, with its vertices transformed by
  the relative matrix, is the one whose bounds are built.
\<close>

fun check_others_spec ::
  "('m, 't) host \<Rightarrow> scene \<Rightarrow> 'm bpy_object \<Rightarrow> bmesh \<Rightarrow> 't \<Rightarrow> real \<Rightarrow> 'm bpy_object list \<Rightarrow>
     nat list \<Rightarrow> exn + nat list" where
  "check_others_spec H cx ob bm tree epsilon_len [] bad_faces = Inr bad_faces"
| "check_others_spec H cx ob bm tree epsilon_len (other_ob # rest) bad_faces =
     (case inverted H (matrix_world ob) of
        None \<Rightarrow> Inl ValueError
      | Some inv_world \<Rightarrow>
          (let matrix = matmul H inv_world (matrix_world other_ob) in
           case get_object_bmesh H cx other_ob (Some matrix) False False True of
             Inl e \<Rightarrow> Inl e
           | Inr other_bm \<Rightarrow>
               (let other_tree = FromBMesh H other_bm epsilon_len in
                case get_bm_intersected_faces H bm tree other_tree of
                  Inl e \<Rightarrow> Inl e
                | Inr fs \<Rightarrow> check_others_spec H cx ob bm tree epsilon_len rest (bad_faces @ fs))))"

section \<open>A small host and example meshes\<close>

text \<open>
  For evaluating the functions on concrete inputs: a host whose placements are
  translations (a matrix is its translation vector, the product adds, the inverse
  negates), whose \<open>get_object_bmesh\<close> reads the object's mesh datablock and moves its
  vertices, whose bounds are the axis-aligned boxes of the faces grown by the tolerance,
  and whose overlap test pairs faces with meeting boxes, leaving out pairs of one tree
  that share a vertex.  Its \<open>recalc_face_normals\<close> flips every face of a mesh that
  encloses a negative signed volume (a closed surface wound inside out).
\<close>

definition vadd :: "vec \<Rightarrow> vec \<Rightarrow> vec" where
  "vadd a b = (case a of (ax, ay, az) \<Rightarrow> case b of (bx, b_y, bz) \<Rightarrow> (ax + bx, ay + b_y, az + bz))"

definition vneg :: "vec \<Rightarrow> vec" where
  "vneg a = (case a of (ax, ay, az) \<Rightarrow> (- ax, - ay, - az))"

definition vmin :: "vec \<Rightarrow> vec \<Rightarrow> vec" where
  "vmin a b = (case a of (ax, ay, az) \<Rightarrow> case b of (bx, b_y, bz) \<Rightarrow> (min ax bx, min ay b_y, min az bz))"

definition vmax :: "vec \<Rightarrow> vec \<Rightarrow> vec" where
  "vmax a b = (case a of (ax, ay, az) \<Rightarrow> case b of (bx, b_y, bz) \<Rightarrow> (max ax bx, max ay b_y, max az bz))"

definition vle :: "vec \<Rightarrow> vec \<Rightarrow> bool" where
  "vle a b = (case a of (ax, ay, az) \<Rightarrow> case b of (bx, b_y, bz) \<Rightarrow> ax \<le> bx \<and> ay \<le> b_y \<and> az \<le> bz)"

definition translate_bm :: "vec \<Rightarrow> bmesh \<Rightarrow> bmesh" where
  "translate_bm t bm = bm\<lparr>verts := map (\<lambda>v. v\<lparr>co := vadd t (co v)\<rparr>) (verts bm)\<rparr>"

text \<open>
  Modelled from the spec: \<^verbatim>\<open>utils.get_object_bmesh\<close> is not among the sources.  The
  specification has the extractor return a fresh mesh in world coordinates without side
  effects, and has the vertices of a mesh pre-multiplied by the matrix that is passed.
\<close>

definition ex_get_object_bmesh ::
  "scene \<Rightarrow> vec bpy_object \<Rightarrow> vec option \<Rightarrow> bool \<Rightarrow> bool \<Rightarrow> bool \<Rightarrow> exn + bmesh" where
  "ex_get_object_bmesh cx ob matrix world triangulate lookup =
     (let bm = ob_data cx (ob_name ob) in
      case matrix of
        Some m \<Rightarrow> Inr (translate_bm m bm)
      | None \<Rightarrow> if world then Inr (translate_bm (matrix_world ob) bm) else Inr bm)"

definition det3 :: "vec \<Rightarrow> vec \<Rightarrow> vec \<Rightarrow> real" where
  "det3 a b c =
     (case a of (ax, ay, az) \<Rightarrow> case b of (bx, b_y, bz) \<Rightarrow> case c of (cx, c_y, cz) \<Rightarrow>
        ax * (b_y * cz - bz * c_y) - ay * (bx * cz - bz * cx) + az * (bx * c_y - b_y * cx))"

definition signed_volume6 :: "bmesh \<Rightarrow> real" where
  "signed_volume6 bm =
     sum_list (map (\<lambda>f. case map (\<lambda>i. co (verts bm ! i)) (f_verts f) of
                           [a, b, c] \<Rightarrow> det3 a b c
                         | _ \<Rightarrow> 0) (faces bm))"

definition flip_face :: "bm_face \<Rightarrow> bm_face" where
  "flip_face f = f\<lparr>f_verts := rev (f_verts f), f_normal := vneg (f_normal f)\<rparr>"

definition ex_recalc_face_normals :: "bmesh \<Rightarrow> bmesh" where
  "ex_recalc_face_normals bm =
     (if signed_volume6 bm < 0 then bm\<lparr>faces := map flip_face (faces bm)\<rparr> else bm)"

type_synonym bounds = "(nat list \<times> vec \<times> vec) list"

definition face_bounds :: "bmesh \<Rightarrow> real \<Rightarrow> bm_face \<Rightarrow> nat list \<times> vec \<times> vec" where
  "face_bounds bm eps f =
     (let ps = map (\<lambda>i. co (verts bm ! i)) (f_verts f) in
      (f_verts f,
       vadd (foldr vmin ps (hd ps)) (- eps, - eps, - eps),
       vadd (foldr vmax ps (hd ps)) (eps, eps, eps)))"

definition ex_FromBMesh :: "bmesh \<Rightarrow> real \<Rightarrow> bounds" where
  "ex_FromBMesh bm eps = map (face_bounds bm eps) (faces bm)"

definition boxes_meet :: "nat list \<times> vec \<times> vec \<Rightarrow> nat list \<times> vec \<times> vec \<Rightarrow> bool" where
  "boxes_meet a b = (vle (fst (snd a)) (snd (snd b)) \<and> vle (fst (snd b)) (snd (snd a)))"

definition ex_overlap :: "bounds \<Rightarrow> bounds \<Rightarrow> (nat \<times> nat) list" where
  "ex_overlap t1 t2 =
     concat (map (\<lambda>i. map (\<lambda>j. (i, j))
       (filter (\<lambda>j. boxes_meet (t1 ! i) (t2 ! j) \<and>
                    (if t1 = t2 then list_all (\<lambda>v. v \<notin> set (fst (t2 ! j))) (fst (t1 ! i)) else True))
          [0..<length t2])) [0..<length t1])"

definition ex_host :: "(vec, bounds) host" where
  "ex_host =
     \<lparr>get_object_bmesh = ex_get_object_bmesh,
      recalc_face_normals = ex_recalc_face_normals,
      inverted = (\<lambda>m. Some (vneg m)),
      matmul = vadd,
      FromBMesh = ex_FromBMesh,
      overlap = ex_overlap\<rparr>"

text \<open>
  A tetrahedron with corners at the origin and on the three axes, its faces wound so
  that the normals point outwards; the same surface wound inside out; and the same with
  only the slanted face flipped, which leaves the three edges of that face between faces
  that disagree.  Lengths and areas that are not rational are given to five digits.
\<close>

definition mk_vert :: "vec \<Rightarrow> nat list \<Rightarrow> bm_vert" where
  "mk_vert c les = \<lparr>co = c, v_is_manifold = True, link_edges = les, v_select = False\<rparr>"

definition mk_edge :: "bool \<Rightarrow> real \<Rightarrow> bm_edge" where
  "mk_edge contiguous len =
     \<lparr>e_is_manifold = True, is_contiguous = contiguous, calc_length = len, e_select = False\<rparr>"

definition mk_face :: "nat list \<Rightarrow> real \<Rightarrow> vec \<Rightarrow> bm_face" where
  "mk_face vs area n =
     \<lparr>f_verts = vs, material_index = 0, calc_area = area, f_normal = n, f_select = False\<rparr>"

definition tetra_verts :: "bm_vert list" where
  "tetra_verts =
     [mk_vert (0, 0, 0) [0, 1, 2], mk_vert (1, 0, 0) [0, 3, 4],
      mk_vert (0, 1, 0) [1, 3, 5], mk_vert (0, 0, 1) [2, 4, 5]]"

definition tetra_out :: bmesh where
  "tetra_out =
     \<lparr>verts = tetra_verts,
      edges = [mk_edge True 1, mk_edge True 1, mk_edge True 1,
               mk_edge True 1.41421, mk_edge True 1.41421, mk_edge True 1.41421],
      faces = [mk_face [0, 2, 1] 0.5 (0, 0, - 1), mk_face [0, 1, 3] 0.5 (0, - 1, 0),
               mk_face [0, 3, 2] 0.5 (- 1, 0, 0), mk_face [1, 2, 3] 0.86603 (0.57735, 0.57735, 0.57735)],
      is_valid = True\<rparr>"

definition tetra_in :: bmesh where
  "tetra_in = tetra_out\<lparr>faces := map flip_face (faces tetra_out)\<rparr>"

definition tetra_one_flipped :: bmesh where
  "tetra_one_flipped =
     tetra_out\<lparr>edges := [mk_edge True 1, mk_edge True 1, mk_edge True 1,
                         mk_edge False 1.41421, mk_edge False 1.41421, mk_edge False 1.41421],
               faces := (faces tetra_out)[3 := flip_face (faces tetra_out ! 3)]\<rparr>"

text \<open>Two separate triangles that pass through each other.\<close>

definition crossing_tris :: bmesh where
  "crossing_tris =
     \<lparr>verts = [mk_vert (0, 0, 0) [0, 2], mk_vert (1, 0, 0) [0, 1], mk_vert (0, 1, 0) [1, 2],
               mk_vert (0.2, 0.2, - 0.5) [3, 5], mk_vert (0.2, 0.2, 0.5) [3, 4],
               mk_vert (0.8, 0.2, 0) [4, 5]],
      edges = replicate 6 ((mk_edge True 1)\<lparr>e_is_manifold := False\<rparr>),
      faces = [mk_face [0, 1, 2] 0.5 (0, 0, 1), mk_face [3, 4, 5] 0.3 (0, - 1, 0)],
      is_valid = True\<rparr>"

definition empty_bm :: bmesh where
  "empty_bm = \<lparr>verts = [], edges = [], faces = [], is_valid = True\<rparr>"

definition steel :: material where
  "steel = \<lparr>ma_name = ''Steel'', bf_surf_export = True\<rparr>"

definition ghost :: material where
  "ghost = \<lparr>ma_name = ''Ghost'', bf_surf_export = False\<rparr>"

definition ex_ob :: "string \<Rightarrow> material option list \<Rightarrow> vec \<Rightarrow> vec bpy_object" where
  "ex_ob nm slots world = \<lparr>ob_name = nm, material_slots = slots, matrix_world = world\<rparr>"

text \<open>
  A scene in edit mode on the active object \<open>A\<close>, which carries one modifier; the mesh
  of \<open>A\<close> and the mesh of a second object \<open>B\<close> are given.
\<close>

definition ex_scene :: "real \<Rightarrow> bmesh \<Rightarrow> bmesh \<Rightarrow> scene" where
  "ex_scene eps bmA bmB =
     \<lparr>bf_config_min_edge_length = eps,
      bf_config_min_face_area = 0.00001,
      active_object = Some ''A'',
      mode = EDIT,
      selected_objects = [''A''],
      mesh_select_mode = Some FACE,
      ob_modifiers = (\<lambda>nm. if nm = ''A'' then [''Solidify''] else []),
      ob_data = (\<lambda>nm. if nm = ''A'' then bmA else if nm = ''B'' then bmB else empty_bm)\<rparr>"

text \<open>
  The tetrahedron with its slanted face degenerated to a line (two of its corners
  coincide, its area is zero), and meshes that consist of loose points only.
\<close>

definition sliver_tetra :: bmesh where
  "sliver_tetra = tetra_out\<lparr>faces := (faces tetra_out)[3 := mk_face [1, 2, 2] 0 (0, 0, 0)]\<rparr>"

definition dup_mesh :: "vec list \<Rightarrow> bmesh" where
  "dup_mesh ps = \<lparr>verts = map (\<lambda>p. mk_vert p []) ps, edges = [], faces = [], is_valid = True\<rparr>"


text \<open>
  The mesh of a second tetrahedron whose own coordinates put it far from the origin; an
  object that carries it with the world translation \<open>(10, 0, 0)\<close> stands a quarter of a
  unit off the first tetrahedron and passes through it.
\<close>

definition shifted_tetra :: bmesh where
  "shifted_tetra = translate_bm (- 39 / 4, 1 / 4, 1 / 4) tetra_out"

text \<open>
  The tetrahedron with its first face given the material index 5; and a tetrahedron whose
  corners on the axes are at the single-precision number nearest to one tenth, which is
  \<open>13421773 / 2 ^ 27\<close>, with lengths and areas given to five digits.
\<close>

definition tetra_sixth_material :: bmesh where
  "tetra_sixth_material =
     tetra_out\<lparr>faces := (faces tetra_out)[0 := (faces tetra_out ! 0)\<lparr>material_index := 5\<rparr>]\<rparr>"

definition tenth_tetra :: bmesh where
  "tenth_tetra =
     \<lparr>verts = [mk_vert (0, 0, 0) [0, 1, 2], mk_vert (13421773 / 134217728, 0, 0) [0, 3, 4],
               mk_vert (0, 13421773 / 134217728, 0) [1, 3, 5],
               mk_vert (0, 0, 13421773 / 134217728) [2, 4, 5]],
      edges = [mk_edge True 0.1, mk_edge True 0.1, mk_edge True 0.1,
               mk_edge True 0.14142, mk_edge True 0.14142, mk_edge True 0.14142],
      faces = [mk_face [0, 2, 1] 0.005 (0, 0, - 1), mk_face [0, 1, 3] 0.005 (0, - 1, 0),
               mk_face [0, 3, 2] 0.005 (- 1, 0, 0), mk_face [1, 2, 3] 0.00866 (0.57735, 0.57735, 0.57735)],
      is_valid = True\<rparr>"

section \<open>Basic facts about raising and the single checks\<close>

lemma raise_bad_geometry_protect:
  "raise_bad_geometry cx ob bm msg True bv be bf = (Inl (BFException (ob_name ob) msg), bm, cx)"
  by (simp add: raise_bad_geometry_def)

lemma fst_raise_bad_geometry:
  "fst (raise_bad_geometry cx ob bm msg protect bv be bf) =
     Inl (if protect then BFException (ob_name ob) msg
          else if is_editmode cx ob then ValueError
          else if bf = [] \<and> be = [] \<and> bv = [] then TypeError
          else BFException (ob_name ob) msg)"
  by (auto simp: raise_bad_geometry_def Let_def is_editmode_def)

lemmas check_defs =
  check_bm_manifold_verts_def check_bm_manifold_edges_def check_bm_degenerate_edges_def
  check_bm_degenerate_faces_def check_bm_loose_vertices_def check_bm_duplicate_vertices_def
  check_bm_normals_def

lemma manifold_verts_pass:
  "fst (check_bm_manifold_verts cx ob bm el ea p) = Inr () \<longleftrightarrow> bad_manifold_verts bm = []"
  by (simp add: check_bm_manifold_verts_def Let_def fst_raise_bad_geometry)

lemma manifold_edges_pass:
  "fst (check_bm_manifold_edges cx ob bm el ea p) = Inr () \<longleftrightarrow> bad_manifold_edges bm = []"
  by (simp add: check_bm_manifold_edges_def Let_def fst_raise_bad_geometry)

lemma degenerate_edges_pass:
  "fst (check_bm_degenerate_edges cx ob bm el ea p) = Inr () \<longleftrightarrow> bad_degenerate_edges bm el = []"
  by (simp add: check_bm_degenerate_edges_def Let_def fst_raise_bad_geometry)

lemma degenerate_faces_pass:
  "fst (check_bm_degenerate_faces cx ob bm el ea p) = Inr () \<longleftrightarrow> bad_degenerate_faces bm ea = []"
  by (simp add: check_bm_degenerate_faces_def Let_def fst_raise_bad_geometry)

lemma loose_vertices_pass:
  "fst (check_bm_loose_vertices cx ob bm el ea p) = Inr () \<longleftrightarrow> bad_loose_vertices bm = []"
  by (simp add: check_bm_loose_vertices_def Let_def fst_raise_bad_geometry)

lemma duplicate_vertices_pass:
  "fst (check_bm_duplicate_vertices cx ob bm el ea p) = Inr () \<longleftrightarrow>
     bad_duplicate_vertices bm el = Inr []"
  by (simp add: check_bm_duplicate_vertices_def fst_raise_bad_geometry split: sum.splits)

lemma normals_pass:
  "fst (check_bm_normals H cx ob bm el ea p) = Inr () \<longleftrightarrow> bad_normal_edges bm = []"
  by (simp add: check_bm_normals_def Let_def fst_raise_bad_geometry)

lemma passed_check_returns_state:
  "fst (check_bm_manifold_verts cx ob bm el ea p) = Inr () \<Longrightarrow>
     check_bm_manifold_verts cx ob bm el ea p = (Inr (), bm, cx)"
  "fst (check_bm_manifold_edges cx ob bm el ea p) = Inr () \<Longrightarrow>
     check_bm_manifold_edges cx ob bm el ea p = (Inr (), bm, cx)"
  "fst (check_bm_degenerate_edges cx ob bm el ea p) = Inr () \<Longrightarrow>
     check_bm_degenerate_edges cx ob bm el ea p = (Inr (), bm, cx)"
  "fst (check_bm_degenerate_faces cx ob bm el ea p) = Inr () \<Longrightarrow>
     check_bm_degenerate_faces cx ob bm el ea p = (Inr (), bm, cx)"
  "fst (check_bm_loose_vertices cx ob bm el ea p) = Inr () \<Longrightarrow>
     check_bm_loose_vertices cx ob bm el ea p = (Inr (), bm, cx)"
  "fst (check_bm_duplicate_vertices cx ob bm el ea p) = Inr () \<Longrightarrow>
     check_bm_duplicate_vertices cx ob bm el ea p = (Inr (), bm, cx)"
  by (simp_all add: check_defs Let_def fst_raise_bad_geometry split: if_splits sum.splits)

lemma snd_check_protect:
  "snd (check_bm_manifold_verts cx ob bm el ea True) = (bm, cx)"
  "snd (check_bm_manifold_edges cx ob bm el ea True) = (bm, cx)"
  "snd (check_bm_degenerate_edges cx ob bm el ea True) = (bm, cx)"
  "snd (check_bm_degenerate_faces cx ob bm el ea True) = (bm, cx)"
  "snd (check_bm_loose_vertices cx ob bm el ea True) = (bm, cx)"
  "snd (check_bm_duplicate_vertices cx ob bm el ea True) = (bm, cx)"
  "snd (check_bm_normals H cx ob bm el ea True) = (bm, cx)"
  by (simp_all add: check_defs Let_def raise_bad_geometry_protect split: sum.splits)

lemma and_then_pass: "and_then (Inr u, bm, cx) k = k bm cx"
  by (simp add: and_then_def)

lemma and_then_fail: "fst r \<noteq> Inr () \<Longrightarrow> and_then r k = r"
  by (cases r; cases "fst r") (auto simp: and_then_def)

lemma and_then_keeps:
  assumes "snd r = (bm, cx)" and "snd (k bm cx) = (bm, cx)"
  shows "snd (and_then r k) = (bm, cx)"
  using assms by (cases r; cases "fst r") (auto simp: and_then_def)

lemma snd_check_bm_quality_protect: "snd (check_bm_quality H cx ob bm True) = (bm, cx)"
  unfolding check_bm_quality_def Let_def
  by (intro and_then_keeps snd_check_protect)

lemma str_nat_digit: "n < 10 \<Longrightarrow> str_nat n = [digit_char n]"
  by (simp add: str_nat.simps)

lemmas ex_defs =
  tetra_one_flipped_def tetra_out_def tetra_in_def tetra_verts_def mk_vert_def mk_edge_def
  mk_face_def ex_scene_def ex_ob_def steel_def ghost_def flip_face_def vneg_def
  crossing_tris_def empty_bm_def

lemmas bad_defs =
  bad_manifold_verts_def bad_manifold_edges_def bad_degenerate_edges_def
  bad_degenerate_faces_def bad_loose_vertices_def bad_normal_edges_def

section \<open>Materials and precondition failures\<close>

lemma get_materials_loop_Inr:
  "get_materials_loop nm slots acc = Inr mas \<Longrightarrow>
     map Some mas = map Some acc @ map (map_option ma_name) slots \<and>
     list_all (\<lambda>s. case s of None \<Rightarrow> False | Some ma \<Rightarrow> bf_surf_export ma) slots"
proof (induction nm slots acc rule: get_materials_loop.induct)
  case (1 ob mas)
  then show ?case by simp
next
  case (2 ob slots mas)
  then show ?case by simp
next
  case (3 ob ma slots mas)
  then show ?case by (auto split: if_splits)
qed

lemma get_materials_Inr:
  assumes "get_materials cx ob = Inr mas"
  shows "map Some mas = map (map_option ma_name) (material_slots ob)"
    and "material_slots ob \<noteq> []"
    and "list_all (\<lambda>s. case s of None \<Rightarrow> False | Some ma \<Rightarrow> bf_surf_export ma) (material_slots ob)"
  using assms get_materials_loop_Inr[of "ob_name ob" "material_slots ob" "[]" mas]
  by (auto simp: get_materials_def split: if_splits)

lemma get_trisurface_Inr_materials:
  assumes "fst (get_trisurface H cx ob s check terrain) = Inr (mas, vs, fs)"
  shows "get_materials cx ob = Inr mas"
  using assms
  by (auto simp: get_trisurface_def Let_def split: sum.splits prod.splits if_splits)

lemma get_materials_loop_first_offender:
  assumes "list_all (\<lambda>s. case s of None \<Rightarrow> False | Some ma \<Rightarrow> bf_surf_export ma) pre"
  shows "get_materials_loop nm (pre @ rest) acc =
           get_materials_loop nm rest
             (acc @ map (\<lambda>s. case s of None \<Rightarrow> [] | Some ma \<Rightarrow> ma_name ma) pre)"
  using assms
proof (induction pre arbitrary: acc)
  case Nil
  then show ?case by simp
next
  case (Cons s pre)
  then show ?case by (cases s) auto
qed

lemma get_trisurface_material_failure:
  "get_materials cx ob = Inl e \<Longrightarrow> get_trisurface H cx ob s check terrain = (Inl e, cx)"
  by (simp add: get_trisurface_def)

text \<open>
  C5 (as amended).  Extraction fails with \<open>NoMaterial\<close> for every object with no material
  slot.  Otherwise the slots are examined in order and the first offending one decides:
  if every slot before an unbound slot is bound to an exported material, the failure is
  \<open>EmptyMaterialSlot\<close>; if every slot before a slot bound to a material that is not
  exported is bound to an exported material, the failure is \<open>MaterialNotExported\<close> for
  that material.  In each case the failure is the whole result, whatever the host's
  \<open>get_object_bmesh\<close>, the scale and the \<open>check\<close> flag are: nothing of the geometry is
  looked at, and the scene is left as it was.
\<close>

theorem get_trisurface_precondition_failures:
  "(material_slots ob = [] \<longrightarrow>
      get_trisurface H cx ob s check terrain = (Inl (NoMaterial (ob_name ob)), cx)) \<and>
   (\<forall>pre post.
      material_slots ob = pre @ None # post \<longrightarrow>
      list_all (\<lambda>s. case s of None \<Rightarrow> False | Some ma \<Rightarrow> bf_surf_export ma) pre \<longrightarrow>
      get_trisurface H cx ob s check terrain = (Inl (EmptyMaterialSlot (ob_name ob)), cx)) \<and>
   (\<forall>pre ma post.
      material_slots ob = pre @ Some ma # post \<longrightarrow>
      list_all (\<lambda>s. case s of None \<Rightarrow> False | Some ma \<Rightarrow> bf_surf_export ma) pre \<longrightarrow>
      \<not> bf_surf_export ma \<longrightarrow>
      get_trisurface H cx ob s check terrain =
        (Inl (MaterialNotExported (ob_name ob) (ma_name ma)), cx))"
proof (intro conjI allI impI)
  assume "material_slots ob = []"
  then have "get_materials cx ob = Inl (NoMaterial (ob_name ob))"
    by (simp add: get_materials_def)
  then show "get_trisurface H cx ob s check terrain = (Inl (NoMaterial (ob_name ob)), cx)"
    by (rule get_trisurface_material_failure)
next
  fix pre post
  assume slots: "material_slots ob = pre @ None # post"
    and ok: "list_all (\<lambda>s. case s of None \<Rightarrow> False | Some ma \<Rightarrow> bf_surf_export ma) pre"
  have "get_materials cx ob = Inl (EmptyMaterialSlot (ob_name ob))"
    using get_materials_loop_first_offender[OF ok, of "ob_name ob" "None # post" "[]"]
    by (simp add: get_materials_def slots)
  then show "get_trisurface H cx ob s check terrain = (Inl (EmptyMaterialSlot (ob_name ob)), cx)"
    by (rule get_trisurface_material_failure)
next
  fix pre ma post
  assume slots: "material_slots ob = pre @ Some ma # post"
    and ok: "list_all (\<lambda>s. case s of None \<Rightarrow> False | Some ma \<Rightarrow> bf_surf_export ma) pre"
    and bad: "\<not> bf_surf_export ma"
  have "get_materials cx ob = Inl (MaterialNotExported (ob_name ob) (ma_name ma))"
    using get_materials_loop_first_offender[OF ok, of "ob_name ob" "Some ma # post" "[]"] bad
    by (simp add: get_materials_def slots)
  then show "get_trisurface H cx ob s check terrain =
      (Inl (MaterialNotExported (ob_name ob) (ma_name ma)), cx)"
    by (rule get_trisurface_material_failure)
qed

theorem get_trisurface_precondition_failures_witness:
  "get_trisurface ex_host (ex_scene (1 / 100000) tetra_out empty_bm) (ex_ob ''A'' [] (0, 0, 0)) 1 True False =
     (Inl (NoMaterial ''A''), ex_scene (1 / 100000) tetra_out empty_bm) \<and>
   get_trisurface ex_host (ex_scene (1 / 100000) tetra_out empty_bm)
       (ex_ob ''A'' [Some steel, None, Some ghost] (0, 0, 0)) 1 True False =
     (Inl (EmptyMaterialSlot ''A''), ex_scene (1 / 100000) tetra_out empty_bm) \<and>
   get_trisurface ex_host (ex_scene (1 / 100000) tetra_out empty_bm)
       (ex_ob ''A'' [Some ghost, None] (0, 0, 0)) 1 True False =
     (Inl (MaterialNotExported ''A'' ''Ghost''), ex_scene (1 / 100000) tetra_out empty_bm)"
proof (intro conjI)
  let ?cx = "ex_scene (1 / 100000) tetra_out empty_bm"
  show "get_trisurface ex_host ?cx (ex_ob ''A'' [] (0, 0, 0)) 1 True False = (Inl (NoMaterial ''A''), ?cx)"
    using get_trisurface_precondition_failures
      [of "ex_ob ''A'' [] (0, 0, 0)" ex_host ?cx 1 True False, THEN conjunct1]
    by (simp add: ex_ob_def)
  show "get_trisurface ex_host ?cx (ex_ob ''A'' [Some steel, None, Some ghost] (0, 0, 0)) 1 True False =
      (Inl (EmptyMaterialSlot ''A''), ?cx)"
    using get_trisurface_precondition_failures
      [of "ex_ob ''A'' [Some steel, None, Some ghost] (0, 0, 0)" ex_host ?cx 1 True False,
       THEN conjunct2, THEN conjunct1, rule_format, of "[Some steel]" "[Some ghost]"]
    by (simp add: ex_ob_def steel_def)
  show "get_trisurface ex_host ?cx (ex_ob ''A'' [Some ghost, None] (0, 0, 0)) 1 True False =
      (Inl (MaterialNotExported ''A'' ''Ghost''), ?cx)"
    using get_trisurface_precondition_failures
      [of "ex_ob ''A'' [Some ghost, None] (0, 0, 0)" ex_host ?cx 1 True False,
       THEN conjunct2, THEN conjunct2, rule_format, of "[]" ghost "[None]"]
    by (simp add: ex_ob_def ghost_def)
qed

text \<open>
  C5 as stated fails: an object whose first slot is bound to a material that is not
  exported and whose second slot is unbound has an unbound slot, and extraction fails
  with \<open>MaterialNotExported\<close>, which is not \<open>EmptyMaterialSlot\<close>.
\<close>

theorem unbound_slot_not_always_empty_slot_failure:
  "None \<in> set (material_slots (ex_ob ''A'' [Some ghost, None] (0, 0, 0))) \<and>
   fst (get_trisurface ex_host (ex_scene (1 / 100000) tetra_out empty_bm)
          (ex_ob ''A'' [Some ghost, None] (0, 0, 0)) 1 True False) =
     Inl (MaterialNotExported ''A'' ''Ghost'') \<and>
   MaterialNotExported ''A'' ''Ghost'' \<noteq> EmptyMaterialSlot ''A''"
  by (simp add: get_trisurface_def get_materials_def ex_ob_def ghost_def
      MaterialNotExported_def EmptyMaterialSlot_def)

section \<open>The product of two floats\<close>

text \<open>
  \<open>pow2\<close> is the power of two with an integer exponent, \<open>ilog2\<close> the integer part of
  the binary logarithm; rounding to an integer errs by a half at most.  Hence a product
  that is a binary64 number is returned as it is, and a product in the normal range is
  returned with a relative error of at most \<open>1 / 2 ^ 53\<close>.
\<close>

lemma pow2_powr: "pow2 e = 2 powr (real_of_int e)"
proof (cases "0 \<le> e")
  case True
  then show ?thesis by (simp add: pow2_def powr_realpow[symmetric])
next
  case False
  then have r: "real (nat (- e)) = - real_of_int e" by simp
  have "(2::real) ^ nat (- e) = 2 powr (real (nat (- e)))" by (simp add: powr_realpow)
  then have "(2::real) ^ nat (- e) = 2 powr (- real_of_int e)" unfolding r .
  then show ?thesis using False by (simp add: pow2_def powr_minus_divide)
qed

lemma pow2_pos: "0 < pow2 e"
  by (simp add: pow2_powr)

lemma pow2_add: "pow2 (a + b) = pow2 a * pow2 b"
  by (simp add: pow2_powr powr_add)

lemma pow2_mono: "a \<le> b \<Longrightarrow> pow2 a \<le> pow2 b"
  by (simp add: pow2_powr)

lemma pow2_less_iff: "pow2 a < pow2 b \<longleftrightarrow> a < b"
  by (simp add: pow2_powr)

lemma pow2_nat: "pow2 (int n) = 2 ^ n"
  by (simp add: pow2_def)

lemma ilog2_bounds:
  assumes "0 < x"
  shows "pow2 (ilog2 x) \<le> x" and "x < pow2 (ilog2 x + 1)"
proof -
  have "pow2 (ilog2 x) \<le> x \<and> x < pow2 (ilog2 x + 1)"
  proof (cases "1 \<le> x")
    case True
    define n where "n = \<lfloor>x\<rfloor>"
    have n: "0 < n" using True by (simp add: n_def)
    then have b1: "1 \<le> bitlen n" by (auto simp: bitlen_alt_def)
    have il: "ilog2 x = bitlen n - 1" using True by (simp add: ilog2_def n_def)
    from bitlen_bounds[OF n] have lo: "2 ^ nat (bitlen n - 1) \<le> n" and hi: "n < 2 ^ nat (bitlen n)"
      by simp_all
    have "pow2 (ilog2 x) = 2 ^ nat (bitlen n - 1)" using b1 by (simp add: il pow2_def)
    also have "\<dots> \<le> real_of_int n" using lo by (metis of_int_le_iff of_int_numeral of_int_power)
    also have "\<dots> \<le> x" by (simp add: n_def)
    finally have A: "pow2 (ilog2 x) \<le> x" .
    from hi have "n + 1 \<le> 2 ^ nat (bitlen n)" by simp
    then have "real_of_int (n + 1) \<le> 2 ^ nat (bitlen n)"
      by (metis of_int_le_iff of_int_numeral of_int_power)
    moreover have "x < real_of_int (n + 1)" by (simp add: n_def)
    ultimately have "x < 2 ^ nat (bitlen n)" by linarith
    moreover have "pow2 (ilog2 x + 1) = 2 ^ nat (bitlen n)" using b1 by (simp add: il pow2_def)
    ultimately show ?thesis using A by simp
  next
    case False
    define q where "q = 1 / x"
    define c where "c = \<lceil>q\<rceil>"
    define b where "b = bitlen (c - 1)"
    have q1: "1 < q" using False assms by (simp add: q_def)
    then have c2: "2 \<le> c" unfolding c_def by linarith
    then have c0: "0 < c - 1" by simp
    then have b1: "1 \<le> b" by (auto simp: bitlen_alt_def b_def)
    have il: "ilog2 x = - b" using False by (simp add: ilog2_def b_def c_def q_def)
    from bitlen_bounds[OF c0] have lo: "2 ^ nat (b - 1) \<le> c - 1" and hi: "c - 1 < 2 ^ nat b"
      by (simp_all add: b_def)
    have "real_of_int (c - 1) < q" unfolding c_def by linarith
    moreover have "(2::real) ^ nat (b - 1) \<le> real_of_int (c - 1)"
      using lo by (metis of_int_le_iff of_int_numeral of_int_power)
    ultimately have lo': "2 ^ nat (b - 1) < q" by linarith
    from hi have "c \<le> 2 ^ nat b" by simp
    then have "real_of_int c \<le> 2 ^ nat b" by (metis of_int_le_iff of_int_numeral of_int_power)
    moreover have "q \<le> real_of_int c" unfolding c_def by linarith
    ultimately have hi': "q \<le> 2 ^ nat b" by linarith
    have x: "x = 1 / q" using assms by (simp add: q_def)
    have "pow2 (ilog2 x) = 1 / 2 ^ nat b" using b1 by (simp add: il pow2_def)
    also have "\<dots> \<le> 1 / q" using hi' q1 by (simp add: frac_le)
    finally have A: "pow2 (ilog2 x) \<le> x" using x by simp
    have "pow2 (ilog2 x + 1) = 1 / 2 ^ nat (b - 1)"
    proof (cases "b = 1")
      case True
      then show ?thesis by (simp add: il pow2_def)
    next
      case False
      with b1 have "1 < b" by simp
      then have "- b + 1 < 0" "nat (- (- b + 1)) = nat (b - 1)" by simp_all
      then show ?thesis by (simp add: il pow2_def)
    qed
    moreover have "1 / q < 1 / 2 ^ nat (b - 1)" using lo' by (simp add: frac_less2)
    ultimately show ?thesis using A x by simp
  qed
  then show "pow2 (ilog2 x) \<le> x" and "x < pow2 (ilog2 x + 1)" by simp_all
qed

lemma ilog2_floor_log:
  assumes "0 < x"
  shows "ilog2 x = \<lfloor>log 2 x\<rfloor>"
proof -
  from ilog2_bounds[OF assms] have "2 powr (real_of_int (ilog2 x)) \<le> x"
    and "x < 2 powr (real_of_int (ilog2 x + 1))" by (simp_all add: pow2_powr)
  then have "real_of_int (ilog2 x) \<le> log 2 x" and "log 2 x < real_of_int (ilog2 x + 1)"
    using assms by (simp_all add: le_log_iff log_less_iff)
  then show ?thesis by linarith
qed

lemma round_half_even_error: "\<bar>real_of_int (round_half_even t) - t\<bar> \<le> 1 / 2"
  unfolding round_half_even_def Let_def by (auto; linarith)

lemma round_half_even_int:
  assumes "of_int \<lfloor>t\<rfloor> = t"
  shows "round_half_even t = \<lfloor>t\<rfloor>"
proof -
  have "t - of_int \<lfloor>t\<rfloor> = 0" unfolding assms by simp
  then show ?thesis unfolding round_half_even_def Let_def by simp
qed

lemma float_round_double:
  assumes "is_double x"
  shows "float_round x = Finite x"
proof (cases "x = 0")
  case True
  then show ?thesis by (simp add: float_round_def)
next
  case False
  define e where "e = max (ilog2 \<bar>x\<bar> - 52) (- 1074)"
  define t where "t = \<bar>x\<bar> / pow2 e"
  from assms False have int: "of_int \<lfloor>t\<rfloor> = t" and fin: "\<bar>x\<bar> < 2 ^ 1024"
    by (simp_all add: is_double_def Let_def e_def t_def)
  have m: "round_half_even t = \<lfloor>t\<rfloor>" using int by (rule round_half_even_int)
  have "of_int (round_half_even t) * pow2 e = t * pow2 e" by (simp add: m int)
  also have "\<dots> = \<bar>x\<bar>" using pow2_pos[of e] by (simp add: t_def)
  finally have y: "of_int (round_half_even t) * pow2 e = \<bar>x\<bar>" .
  show ?thesis
    using False fin unfolding float_round_def Let_def e_def[symmetric] t_def[symmetric] y
    by simp
qed

lemma float_round_accuracy:
  assumes lo: "pow2 (- 1022) \<le> \<bar>x\<bar>" and hi: "\<bar>x\<bar> \<le> 2 ^ 1023"
  shows "\<exists>y. float_round x = Finite y \<and> \<bar>y - x\<bar> \<le> \<bar>x\<bar> / 2 ^ 53"
proof -
  have pos: "0 < \<bar>x\<bar>" using lo pow2_pos[of "- 1022"] by linarith
  then have x0: "x \<noteq> 0" by simp
  define e where "e = ilog2 \<bar>x\<bar> - 52"
  have "pow2 (- 1022) < pow2 (ilog2 \<bar>x\<bar> + 1)" using lo ilog2_bounds(2)[OF pos] by linarith
  then have "- 1022 < ilog2 \<bar>x\<bar> + 1" by (simp add: pow2_less_iff)
  then have emax: "max (ilog2 \<bar>x\<bar> - 52) (- 1074) = e" by (simp add: e_def)
  define t where "t = \<bar>x\<bar> / pow2 e"
  define m where "m = round_half_even t"
  define y where "y = of_int m * pow2 e"
  have pe: "0 < pow2 e" by (rule pow2_pos)
  have "pow2 (ilog2 \<bar>x\<bar>) = pow2 e * 2 ^ 52"
    using pow2_add[of e 52] pow2_nat[of 52] by (simp add: e_def)
  with ilog2_bounds(1)[OF pos] have big: "pow2 e * 2 ^ 52 \<le> \<bar>x\<bar>" by simp
  have "\<bar>y - \<bar>x\<bar>\<bar> = \<bar>of_int m - t\<bar> * pow2 e"
  proof -
    have "y - \<bar>x\<bar> = (of_int m - t) * pow2 e" using pe by (simp add: y_def t_def algebra_simps)
    then show ?thesis using pe by (simp add: abs_mult)
  qed
  also have "\<dots> \<le> 1 / 2 * pow2 e"
    using round_half_even_error[of t] pe unfolding m_def by (intro mult_right_mono) simp_all
  also have "\<dots> \<le> \<bar>x\<bar> / 2 ^ 53"
  proof -
    have "1 / 2 * pow2 e = pow2 e * 2 ^ 52 / 2 ^ 53" by simp
    also have "\<dots> \<le> \<bar>x\<bar> / 2 ^ 53" using big by (intro divide_right_mono) simp_all
    finally show ?thesis .
  qed
  finally have err: "\<bar>y - \<bar>x\<bar>\<bar> \<le> \<bar>x\<bar> / 2 ^ 53" .
  have "y \<le> \<bar>x\<bar> + \<bar>x\<bar> / 2 ^ 53" using err by linarith
  also have "\<dots> \<le> 2 ^ 1023 + 2 ^ 1023 / 2 ^ 53"
    using hi by (intro add_mono divide_right_mono) simp_all
  also have "\<dots> < 2 ^ 1024" by simp
  finally have fin: "\<not> 2 ^ 1024 \<le> y" by simp
  have fr: "float_round x = Finite (if x < 0 then - y else y)"
    using x0 fin unfolding float_round_def Let_def emax t_def[symmetric] m_def[symmetric] y_def[symmetric]
    by simp
  have "\<bar>(if x < 0 then - y else y) - x\<bar> = \<bar>y - \<bar>x\<bar>\<bar>" by (cases "x < 0") simp_all
  with err fr show ?thesis by simp
qed

lemma float_mul_accuracy:
  assumes "normal_range (x * y)" and "float_mul x y = Finite p"
  shows "\<bar>p - x * y\<bar> \<le> \<bar>x * y\<bar> / 2 ^ 53"
proof -
  from assms(1) have "pow2 (- 1022) \<le> \<bar>x * y\<bar>" and "\<bar>x * y\<bar> \<le> 2 ^ 1023"
    by (simp_all add: normal_range_def)
  from float_round_accuracy[OF this] assms(2) show ?thesis
    by (auto simp: float_mul_def)
qed

lemma scale_law_error:
  assumes sk: "float_mul s k = Finite sk" and a: "float_mul x sk = Finite a"
    and c: "float_mul x s = Finite c"
    and n1: "normal_range (s * k)" and n2: "normal_range (x * sk)" and n3: "normal_range (x * s)"
  shows "\<bar>a - c * k\<bar> \<le> 4 * \<bar>x * s * k\<bar> / 2 ^ 53"
proof -
  define u :: real where "u = 1 / 2 ^ 53"
  define P where "P = \<bar>x\<bar> * \<bar>s\<bar> * \<bar>k\<bar>"
  have u: "0 \<le> u" "u \<le> 1" by (simp_all add: u_def)
  have P: "0 \<le> P" by (simp add: P_def)
  have e1: "\<bar>sk - s * k\<bar> \<le> u * (\<bar>s\<bar> * \<bar>k\<bar>)"
    using float_mul_accuracy[OF n1 sk] by (simp add: u_def abs_mult)
  have e2: "\<bar>a - x * sk\<bar> \<le> u * (\<bar>x\<bar> * \<bar>sk\<bar>)"
    using float_mul_accuracy[OF n2 a] by (simp add: u_def abs_mult)
  have e3: "\<bar>c - x * s\<bar> \<le> u * (\<bar>x\<bar> * \<bar>s\<bar>)"
    using float_mul_accuracy[OF n3 c] by (simp add: u_def abs_mult)
  have "\<bar>sk\<bar> \<le> \<bar>s * k\<bar> + \<bar>sk - s * k\<bar>" by linarith
  also have "\<dots> \<le> \<bar>s\<bar> * \<bar>k\<bar> + u * (\<bar>s\<bar> * \<bar>k\<bar>)" using e1 by (simp add: abs_mult)
  finally have sk_le: "\<bar>sk\<bar> \<le> (1 + u) * (\<bar>s\<bar> * \<bar>k\<bar>)" by (simp add: algebra_simps)
  have t1: "\<bar>a - x * sk\<bar> \<le> u * (1 + u) * P"
  proof -
    have "\<bar>x\<bar> * \<bar>sk\<bar> \<le> \<bar>x\<bar> * ((1 + u) * (\<bar>s\<bar> * \<bar>k\<bar>))"
      using sk_le by (intro mult_left_mono) simp_all
    then have "u * (\<bar>x\<bar> * \<bar>sk\<bar>) \<le> u * (\<bar>x\<bar> * ((1 + u) * (\<bar>s\<bar> * \<bar>k\<bar>)))"
      using u(1) by (rule mult_left_mono)
    with e2 show ?thesis by (simp add: P_def algebra_simps)
  qed
  have t2: "\<bar>x * (sk - s * k)\<bar> \<le> u * P"
  proof -
    have "\<bar>x * (sk - s * k)\<bar> = \<bar>x\<bar> * \<bar>sk - s * k\<bar>" by (simp add: abs_mult)
    also have "\<dots> \<le> \<bar>x\<bar> * (u * (\<bar>s\<bar> * \<bar>k\<bar>))" using e1 by (intro mult_left_mono) simp_all
    finally show ?thesis by (simp add: P_def algebra_simps)
  qed
  have t3: "\<bar>(x * s - c) * k\<bar> \<le> u * P"
  proof -
    have "\<bar>(x * s - c) * k\<bar> = \<bar>c - x * s\<bar> * \<bar>k\<bar>" by (simp add: abs_mult abs_minus_commute)
    also have "\<dots> \<le> (u * (\<bar>x\<bar> * \<bar>s\<bar>)) * \<bar>k\<bar>" using e3 by (intro mult_right_mono) simp_all
    finally show ?thesis by (simp add: P_def algebra_simps)
  qed
  have "a - c * k = (a - x * sk) + x * (sk - s * k) + (x * s - c) * k" by (simp add: algebra_simps)
  then have "\<bar>a - c * k\<bar> \<le> \<bar>a - x * sk\<bar> + \<bar>x * (sk - s * k)\<bar> + \<bar>(x * s - c) * k\<bar>" by linarith
  also have "\<dots> \<le> u * (1 + u) * P + u * P + u * P" using t1 t2 t3 by linarith
  also have "\<dots> = (3 + u) * (u * P)" by (simp add: algebra_simps)
  also have "\<dots> \<le> 4 * (u * P)"
    using u P by (intro mult_right_mono) simp_all
  finally show ?thesis by (simp add: u_def P_def abs_mult)
qed

lemma bitlen_numeral:
  "bitlen (numeral (Num.Bit0 n)) = bitlen (numeral n) + 1"
  "bitlen (numeral (Num.Bit1 n)) = bitlen (numeral n) + 1"
  "bitlen 1 = 1"
  by (subst compute_bitlen; simp)+

lemmas float_defs =
  float_mul_def float_round_def ilog2_def Let_def pow2_def round_half_even_def bitlen_numeral

lemma float_mul_zero: "float_mul 0 s = Finite 0"
  by (simp add: float_mul_def float_round_def)

lemma float_mul_small:
  "float_mul 1 2 = Finite 2" "float_mul 2 3 = Finite 6" "float_mul 1 6 = Finite 6"
  by (simp_all add: float_defs)

text \<open>
  Products of the binary64 numbers nearest to one tenth, \<open>3602879701896397 / 2 ^ 55\<close>, and
  of the single-precision number nearest to one tenth, \<open>13421773 / 2 ^ 27\<close>.
\<close>

lemma float_mul_tenths:
  "float_mul (3602879701896397 / 36028797018963968) (3602879701896397 / 36028797018963968) =
     Finite (1441151880758559 / 144115188075855872)"
  "float_mul (13421773 / 134217728) (1441151880758559 / 144115188075855872) =
     Finite (2305843043573433 / 2305843009213693952)"
  "float_mul (13421773 / 134217728) (3602879701896397 / 36028797018963968) =
     Finite (5764607608933581 / 576460752303423488)"
  "float_mul (5764607608933581 / 576460752303423488) (3602879701896397 / 36028797018963968) =
     Finite (4611686087146865 / 4611686018427387904)"
  by (simp_all add: float_defs)

section \<open>Extraction: scale, indices\<close>

lemma check_bm_quality_protect_cases:
  obtains e where "check_bm_quality H cx ob bm True = (Inl e, bm, cx)"
  | "check_bm_quality H cx ob bm True = (Inr (), bm, cx)"
  using snd_check_bm_quality_protect[of H cx ob bm]
  by (cases "check_bm_quality H cx ob bm True"; cases "fst (check_bm_quality H cx ob bm True)") auto

text \<open>The outcome of extraction in terms of the mesh the host hands over.\<close>

lemma get_trisurface_unfold:
  assumes "get_materials cx ob = Inr mas"
    and "get_object_bmesh H cx ob None True True False = Inr bm"
  shows "get_trisurface H cx ob s check terrain =
     (case (if check then fst (check_bm_quality H cx ob bm True) else Inr ()) of
        Inl e \<Rightarrow> (Inl e, cx)
      | Inr u \<Rightarrow>
          (case extract_faces (faces bm) [] of
             Inl e \<Rightarrow> (Inl e, cx)
           | Inr fs \<Rightarrow> (Inr (mas, map (\<lambda>v. scale_co s (co v)) (verts bm), fs), cx)))"
proof (cases check)
  case False
  then show ?thesis using assms by (simp add: get_trisurface_def)
next
  case True
  show ?thesis
  proof (rule check_bm_quality_protect_cases[of H cx ob bm])
    fix e assume "check_bm_quality H cx ob bm True = (Inl e, bm, cx)"
    then show ?thesis using assms True by (simp add: get_trisurface_def)
  next
    assume "check_bm_quality H cx ob bm True = (Inr (), bm, cx)"
    then show ?thesis using assms True by (simp add: get_trisurface_def)
  qed
qed

lemma get_trisurface_no_bmesh:
  assumes "get_materials cx ob = Inr mas"
    and "get_object_bmesh H cx ob None True True False = Inl e"
  shows "get_trisurface H cx ob s check terrain = (Inl e, cx)"
  using assms by (simp add: get_trisurface_def)

text \<open>
  C7 (as amended).  Every output vertex is the input vertex with each of its three
  coordinates multiplied by the one scalar \<open>scale_length\<close>, the product being that of
  Python floats: it is the real product when that is a binary64 number, and within the
  relative error \<open>1 / 2 ^ 53\<close> of the real product when that lies in the normal range
  (\<open>normal_range\<close>).  Consequently, when the scale \<open>s\<close> is multiplied by a factor
  \<open>k\<close>, a coordinate \<open>a\<close> that extraction with the new scale gives for the input
  coordinate \<open>x\<close> is \<open>k\<close> times the coordinate \<open>c\<close> that extraction with \<open>s\<close>
  gives for it up to rounding, not exactly: they differ by at most
  \<open>4 * \<bar>x * s * k\<bar> / 2 ^ 53\<close> when the three products involved lie in the normal range.
  Extraction with another scale \<open>s'\<close> raises the same exception when extraction with
  \<open>s\<close> raises one, and otherwise returns the same materials, the same faces and as many
  vertices; the scene is as it was.
\<close>

theorem get_trisurface_unit_scale:
  "(\<forall>bm mas vs fs.
      get_object_bmesh H cx ob None True True False = Inr bm \<longrightarrow>
      fst (get_trisurface H cx ob s check terrain) = Inr (mas, vs, fs) \<longrightarrow>
      vs = map (\<lambda>v. case co v of (x, y, z) \<Rightarrow> (float_mul x s, float_mul y s, float_mul z s))
             (verts bm)) \<and>
   (\<forall>x. is_double (x * s) \<longrightarrow> float_mul x s = Finite (x * s)) \<and>
   (\<forall>x. normal_range (x * s) \<longrightarrow>
      (\<exists>y. float_mul x s = Finite y \<and> \<bar>y - x * s\<bar> \<le> \<bar>x * s\<bar> / 2 ^ 53)) \<and>
   (\<forall>x k sk a c.
      float_mul s k = Finite sk \<longrightarrow> float_mul x sk = Finite a \<longrightarrow> float_mul x s = Finite c \<longrightarrow>
      normal_range (s * k) \<longrightarrow> normal_range (x * sk) \<longrightarrow> normal_range (x * s) \<longrightarrow>
      \<bar>a - c * k\<bar> \<le> 4 * \<bar>x * s * k\<bar> / 2 ^ 53) \<and>
   (\<forall>e. fst (get_trisurface H cx ob s check terrain) = Inl e \<longrightarrow>
      get_trisurface H cx ob s' check terrain = (Inl e, cx)) \<and>
   (\<forall>mas vs fs.
      fst (get_trisurface H cx ob s check terrain) = Inr (mas, vs, fs) \<longrightarrow>
      (\<exists>vs'. get_trisurface H cx ob s' check terrain = (Inr (mas, vs', fs), cx) \<and>
             length vs' = length vs))"
proof (intro conjI allI impI)
  fix bm mas vs fs
  assume bm: "get_object_bmesh H cx ob None True True False = Inr bm"
    and ok: "fst (get_trisurface H cx ob s check terrain) = Inr (mas, vs, fs)"
  have mas: "get_materials cx ob = Inr mas" using ok by (rule get_trisurface_Inr_materials)
  have "vs = map (\<lambda>v. scale_co s (co v)) (verts bm)"
    using ok unfolding get_trisurface_unfold[OF mas bm]
    by (auto split: sum.splits)
  then show "vs = map (\<lambda>v. case co v of (x, y, z) \<Rightarrow> (float_mul x s, float_mul y s, float_mul z s))
      (verts bm)"
    by (simp add: scale_co_def)
next
  fix x
  assume "is_double (x * s)"
  then show "float_mul x s = Finite (x * s)"
    unfolding float_mul_def by (rule float_round_double)
next
  fix x
  assume "normal_range (x * s)"
  then have "pow2 (- 1022) \<le> \<bar>x * s\<bar>" and "\<bar>x * s\<bar> \<le> 2 ^ 1023"
    by (simp_all add: normal_range_def)
  then show "\<exists>y. float_mul x s = Finite y \<and> \<bar>y - x * s\<bar> \<le> \<bar>x * s\<bar> / 2 ^ 53"
    unfolding float_mul_def by (rule float_round_accuracy)
next
  fix x k sk a c
  assume "float_mul s k = Finite sk" "float_mul x sk = Finite a" "float_mul x s = Finite c"
    "normal_range (s * k)" "normal_range (x * sk)" "normal_range (x * s)"
  then show "\<bar>a - c * k\<bar> \<le> 4 * \<bar>x * s * k\<bar> / 2 ^ 53"
    by (rule scale_law_error)
next
  fix e
  assume fails: "fst (get_trisurface H cx ob s check terrain) = Inl e"
  show "get_trisurface H cx ob s' check terrain = (Inl e, cx)"
  proof (cases "get_materials cx ob")
    case (Inl e')
    then show ?thesis using fails by (simp add: get_trisurface_material_failure)
  next
    case mas: (Inr mas)
    show ?thesis
    proof (cases "get_object_bmesh H cx ob None True True False")
      case (Inl e')
      then show ?thesis using fails mas by (simp add: get_trisurface_no_bmesh)
    next
      case (Inr bm)
      show ?thesis
        using fails unfolding get_trisurface_unfold[OF mas Inr]
        by (cases "if check then fst (check_bm_quality H cx ob bm True) else Inr ()";
            cases "extract_faces (faces bm) []") simp_all
    qed
  qed
next
  fix mas vs fs
  assume ok: "fst (get_trisurface H cx ob s check terrain) = Inr (mas, vs, fs)"
  have mas: "get_materials cx ob = Inr mas" using ok by (rule get_trisurface_Inr_materials)
  show "\<exists>vs'. get_trisurface H cx ob s' check terrain = (Inr (mas, vs', fs), cx) \<and>
      length vs' = length vs"
  proof (cases "get_object_bmesh H cx ob None True True False")
    case (Inl e')
    then show ?thesis using ok mas by (simp add: get_trisurface_no_bmesh)
  next
    case (Inr bm)
    show ?thesis
      using ok unfolding get_trisurface_unfold[OF mas Inr]
      by (cases "if check then fst (check_bm_quality H cx ob bm True) else Inr ()";
          cases "extract_faces (faces bm) []") auto
  qed
qed

lemma extract_faces_Inr:
  "extract_faces fs acc = Inr out \<Longrightarrow>
     out = acc @ map (\<lambda>f. (f_verts f ! 0 + 1, f_verts f ! 1 + 1, f_verts f ! 2 + 1,
                           material_index f + 1)) fs \<and>
     list_all (\<lambda>f. 3 \<le> length (f_verts f)) fs"
proof (induction fs arbitrary: acc)
  case Nil
  then show ?case by simp
next
  case (Cons f fs)
  from Cons.prems obtain v0 v1 v2 rest where fv: "f_verts f = v0 # v1 # v2 # rest"
    by (auto split: list.splits)
  with Cons.prems have "extract_faces fs (acc @ [(v0 + 1, v1 + 1, v2 + 1, material_index f + 1)]) = Inr out"
    by simp
  from Cons.IH[OF this] show ?case by (simp add: fv)
qed

text \<open>
  C6 (as amended).  For every successfully exported surface, the faces list holds the
  zero-based indices of the mesh plus one, the materials list has one entry per material
  slot and the vertex list one entry per vertex of the mesh.  So every index is at least
  1; every material index is at most \<open>len(materials)\<close> exactly when every face of the
  mesh has a material index below the number of material slots; and every vertex index
  is at most \<open>len(vertices)\<close> when every face of the mesh refers to vertices of the mesh.
  Neither condition on the mesh is checked by the extraction.
\<close>

theorem exported_indices_one_based:
  assumes ok: "fst (get_trisurface H cx ob s check terrain) = Inr (mas, vs, fs)"
    and bm: "get_object_bmesh H cx ob None True True False = Inr bm"
  shows "fs = map (\<lambda>f. (f_verts f ! 0 + 1, f_verts f ! 1 + 1, f_verts f ! 2 + 1,
                        material_index f + 1)) (faces bm) \<and>
         length mas = length (material_slots ob) \<and>
         length vs = length (verts bm) \<and>
         (\<forall>(v1, v2, v3, mi)\<in>set fs. 1 \<le> mi \<and> 1 \<le> v1 \<and> 1 \<le> v2 \<and> 1 \<le> v3) \<and>
         ((\<forall>(v1, v2, v3, mi)\<in>set fs. mi \<le> length mas) \<longleftrightarrow>
          (\<forall>f\<in>set (faces bm). material_index f < length (material_slots ob))) \<and>
         ((\<forall>f\<in>set (faces bm). \<forall>v\<in>set (f_verts f). v < length (verts bm)) \<longrightarrow>
          (\<forall>(v1, v2, v3, mi)\<in>set fs. v1 \<le> length vs \<and> v2 \<le> length vs \<and> v3 \<le> length vs))"
proof -
  have mas: "get_materials cx ob = Inr mas" using ok by (rule get_trisurface_Inr_materials)
  have len_mas: "length mas = length (material_slots ob)"
    using get_materials_Inr(1)[OF mas] by (metis length_map)
  from ok have ex: "extract_faces (faces bm) [] = Inr fs"
    and vs: "vs = map (\<lambda>v. scale_co s (co v)) (verts bm)"
    unfolding get_trisurface_unfold[OF mas bm] by (auto split: sum.splits)
  from extract_faces_Inr[OF ex]
  have fs: "fs = map (\<lambda>f. (f_verts f ! 0 + 1, f_verts f ! 1 + 1, f_verts f ! 2 + 1,
                        material_index f + 1)) (faces bm)"
    and three: "list_all (\<lambda>f. 3 \<le> length (f_verts f)) (faces bm)" by simp_all
  have len_vs: "length vs = length (verts bm)" by (simp add: vs)
  have lower: "\<forall>(v1, v2, v3, mi)\<in>set fs. 1 \<le> mi \<and> 1 \<le> v1 \<and> 1 \<le> v2 \<and> 1 \<le> v3"
    by (auto simp: fs)
  have mat: "(\<forall>(v1, v2, v3, mi)\<in>set fs. mi \<le> length mas) \<longleftrightarrow>
      (\<forall>f\<in>set (faces bm). material_index f < length (material_slots ob))"
    by (auto simp: fs len_mas Suc_le_eq)
  have vrt: "\<forall>(v1, v2, v3, mi)\<in>set fs. v1 \<le> length vs \<and> v2 \<le> length vs \<and> v3 \<le> length vs"
    if wf: "\<forall>f\<in>set (faces bm). \<forall>v\<in>set (f_verts f). v < length (verts bm)"
  proof -
    have "f_verts f ! 0 < length (verts bm) \<and> f_verts f ! 1 < length (verts bm) \<and>
          f_verts f ! 2 < length (verts bm)" if f: "f \<in> set (faces bm)" for f
    proof -
      from three f have l3: "3 \<le> length (f_verts f)" by (simp add: list_all_iff)
      then have "f_verts f ! 0 \<in> set (f_verts f)" "f_verts f ! 1 \<in> set (f_verts f)"
        "f_verts f ! 2 \<in> set (f_verts f)" by (auto intro!: nth_mem)
      with wf f show ?thesis by blast
    qed
    then show ?thesis by (auto simp: fs len_vs Suc_le_eq)
  qed
  from fs len_mas len_vs lower mat vrt show ?thesis by blast
qed

text \<open>Evaluation on the tetrahedron.\<close>

lemmas geom_defs = bad_duplicate_vertices_def find_range_def points_in_range_def in_range_def dist_sq_def

lemma tetra_out_quality:
  "check_bm_quality H (ex_scene (1 / 100000) bmA bmB) ob tetra_out True =
     (Inr (), tetra_out, ex_scene (1 / 100000) bmA bmB)"
  by (simp add: check_bm_quality_def Let_def and_then_def check_defs bad_defs geom_defs ex_defs)

lemma ex_get_tetra_out:
  "get_object_bmesh ex_host (ex_scene (1 / 100000) tetra_out bmB) (ex_ob ''A'' slots (0, 0, 0))
     None True True False = Inr tetra_out"
  by (simp add: ex_host_def ex_get_object_bmesh_def translate_bm_def vadd_def ex_defs)

lemma scale_tetra_out:
  "map (\<lambda>v. scale_co 2 (co v)) (verts tetra_out) =
     [(Finite 0, Finite 0, Finite 0), (Finite 2, Finite 0, Finite 0), (Finite 0, Finite 2, Finite 0), (Finite 0, Finite 0, Finite 2)]"
  "map (\<lambda>v. scale_co 3 (co v)) (verts tetra_out) =
     [(Finite 0, Finite 0, Finite 0), (Finite 3, Finite 0, Finite 0), (Finite 0, Finite 3, Finite 0), (Finite 0, Finite 0, Finite 3)]"
  by (simp_all add: scale_co_def ex_defs float_mul_zero float_defs)

lemma ex_get_trisurface_tetra:
  assumes m: "get_materials (ex_scene (1 / 100000) tetra_out empty_bm) (ex_ob ''A'' slots (0, 0, 0)) =
      Inr mas"
  shows "get_trisurface ex_host (ex_scene (1 / 100000) tetra_out empty_bm)
      (ex_ob ''A'' slots (0, 0, 0)) 2 True False =
     (Inr (mas, [(Finite 0, Finite 0, Finite 0), (Finite 2, Finite 0, Finite 0), (Finite 0, Finite 2, Finite 0), (Finite 0, Finite 0, Finite 2)],
           [(1, 3, 2, 1), (1, 2, 4, 1), (1, 4, 3, 1), (2, 3, 4, 1)]),
      ex_scene (1 / 100000) tetra_out empty_bm)"
proof -
  have q: "fst (check_bm_quality ex_host (ex_scene (1 / 100000) tetra_out empty_bm)
      (ex_ob ''A'' slots (0, 0, 0)) tetra_out True) = Inr ()"
    by (simp add: tetra_out_quality)
  have f: "extract_faces (faces tetra_out) [] =
      Inr [(1, 3, 2, 1), (1, 2, 4, 1), (1, 4, 3, 1), (2, 3, 4, 1)]"
    by (simp add: ex_defs)
  show ?thesis
    unfolding get_trisurface_unfold[OF m ex_get_tetra_out] q f scale_tetra_out by simp
qed

lemma ex_materials_one:
  "get_materials cx (ex_ob ''A'' [Some steel] (0, 0, 0)) = Inr [''Steel'']"
  by (simp add: get_materials_def ex_ob_def steel_def)

lemma ex_materials_two:
  "get_materials cx (ex_ob ''A'' [Some steel, Some steel] (0, 0, 0)) = Inr [''Steel'', ''Steel'']"
  by (simp add: get_materials_def ex_ob_def steel_def)

theorem exported_indices_one_based_witness:
  "fst (get_trisurface ex_host (ex_scene (1 / 100000) tetra_out empty_bm)
          (ex_ob ''A'' [Some steel] (0, 0, 0)) 2 True False) =
     Inr ([''Steel''], [(Finite 0, Finite 0, Finite 0), (Finite 2, Finite 0, Finite 0), (Finite 0, Finite 2, Finite 0), (Finite 0, Finite 0, Finite 2)],
          [(1, 3, 2, 1), (1, 2, 4, 1), (1, 4, 3, 1), (2, 3, 4, 1)]) \<and>
   list_all (\<lambda>f. material_index f < length (material_slots (ex_ob ''A'' [Some steel] (0, 0, 0))))
     (faces tetra_out) \<and>
   list_all (\<lambda>f. list_all (\<lambda>v. v < length (verts tetra_out)) (f_verts f)) (faces tetra_out) \<and>
   list_all (\<lambda>(v1, v2, v3, mi).
        1 \<le> mi \<and> mi \<le> length [''Steel''] \<and> 1 \<le> v1 \<and> v1 \<le> (4::nat) \<and>
        1 \<le> v2 \<and> v2 \<le> 4 \<and> 1 \<le> v3 \<and> v3 \<le> 4)
     ([(1, 3, 2, 1), (1, 2, 4, 1), (1, 4, 3, 1), (2, 3, 4, 1)] :: xbs_face list)"
proof -
  let ?cx = "ex_scene (1 / 100000) tetra_out empty_bm"
  let ?ob = "ex_ob ''A'' [Some steel] (0, 0, 0)"
  let ?vs = "[(Finite 0, Finite 0, Finite 0), (Finite 2, Finite 0, Finite 0), (Finite 0, Finite 2, Finite 0), (Finite 0, Finite 0, Finite 2)] :: xbs_vert list"
  let ?fs = "[(1, 3, 2, 1), (1, 2, 4, 1), (1, 4, 3, 1), (2, 3, 4, 1)] :: xbs_face list"
  have ok: "fst (get_trisurface ex_host ?cx ?ob 2 True False) = Inr ([''Steel''], ?vs, ?fs)"
    by (simp add: ex_get_trisurface_tetra[OF ex_materials_one])
  have mat: "\<forall>f\<in>set (faces tetra_out). material_index f < length (material_slots ?ob)"
    by (simp add: ex_defs)
  have vrt: "\<forall>f\<in>set (faces tetra_out). \<forall>v\<in>set (f_verts f). v < length (verts tetra_out)"
    by (simp add: ex_defs)
  note T = exported_indices_one_based[OF ok ex_get_tetra_out]
  from T have lower: "\<forall>(v1, v2, v3, mi)\<in>set ?fs. 1 \<le> mi \<and> 1 \<le> v1 \<and> 1 \<le> v2 \<and> 1 \<le> v3"
    by (elim conjE)
  from T mat have upper_mat: "\<forall>(v1, v2, v3, mi)\<in>set ?fs. mi \<le> length [''Steel'']"
    by (elim conjE) (rule iffD2)
  from T vrt have upper_vrt:
    "\<forall>(v1, v2, v3, mi)\<in>set ?fs. v1 \<le> length ?vs \<and> v2 \<le> length ?vs \<and> v3 \<le> length ?vs"
    by (elim conjE) (rule mp)
  from lower upper_mat upper_vrt
  have "list_all (\<lambda>(v1, v2, v3, mi).
        1 \<le> mi \<and> mi \<le> length [''Steel''] \<and> 1 \<le> v1 \<and> v1 \<le> (4::nat) \<and>
        1 \<le> v2 \<and> v2 \<le> 4 \<and> 1 \<le> v3 \<and> v3 \<le> 4) ?fs"
    by (simp add: list_all_iff)
  moreover have "list_all (\<lambda>f. material_index f < length (material_slots ?ob)) (faces tetra_out)"
    using mat by (simp add: list_all_iff)
  moreover have "list_all (\<lambda>f. list_all (\<lambda>v. v < length (verts tetra_out)) (f_verts f)) (faces tetra_out)"
    using vrt by (simp add: list_all_iff)
  ultimately show ?thesis using ok by blast
qed

lemma sixth_material_quality:
  "check_bm_quality H (ex_scene (1 / 100000) bmA bmB) ob tetra_sixth_material True =
     (Inr (), tetra_sixth_material, ex_scene (1 / 100000) bmA bmB)"
  by (simp add: check_bm_quality_def Let_def and_then_def check_defs bad_defs geom_defs ex_defs
      tetra_sixth_material_def)

lemma ex_get_sixth_material:
  "get_object_bmesh ex_host (ex_scene (1 / 100000) tetra_sixth_material bmB) (ex_ob ''A'' slots (0, 0, 0))
     None True True False = Inr tetra_sixth_material"
  by (simp add: ex_host_def ex_get_object_bmesh_def translate_bm_def vadd_def ex_defs
      tetra_sixth_material_def)

text \<open>
  C6 as stated fails: nothing in the extraction compares the material index of a face
  with the number of material slots.  The tetrahedron whose first face has the material
  index 5, on an object with one slot, passes the quality checks and is exported with the
  material index 6 and a materials list of length 1.
\<close>

theorem material_index_beyond_materials:
  "fst (get_trisurface ex_host (ex_scene (1 / 100000) tetra_sixth_material empty_bm)
          (ex_ob ''A'' [Some steel] (0, 0, 0)) 2 True False) =
     Inr ([''Steel''], [(Finite 0, Finite 0, Finite 0), (Finite 2, Finite 0, Finite 0), (Finite 0, Finite 2, Finite 0), (Finite 0, Finite 0, Finite 2)],
          [(1, 3, 2, 6), (1, 2, 4, 1), (1, 4, 3, 1), (2, 3, 4, 1)]) \<and>
   (1, 3, 2, 6) \<in> set ([(1, 3, 2, 6), (1, 2, 4, 1), (1, 4, 3, 1), (2, 3, 4, 1)] :: xbs_face list) \<and>
   \<not> (6::nat) \<le> length [''Steel'']"
proof -
  let ?cx = "ex_scene (1 / 100000) tetra_sixth_material empty_bm"
  let ?ob = "ex_ob ''A'' [Some steel] (0, 0, 0)"
  have q: "fst (check_bm_quality ex_host ?cx ?ob tetra_sixth_material True) = Inr ()"
    by (simp add: sixth_material_quality)
  have f: "extract_faces (faces tetra_sixth_material) [] =
      Inr [(1, 3, 2, 6), (1, 2, 4, 1), (1, 4, 3, 1), (2, 3, 4, 1)]"
    by (simp add: ex_defs tetra_sixth_material_def)
  have v: "map (\<lambda>v. scale_co 2 (co v)) (verts tetra_sixth_material) =
      [(Finite 0, Finite 0, Finite 0), (Finite 2, Finite 0, Finite 0), (Finite 0, Finite 2, Finite 0), (Finite 0, Finite 0, Finite 2)]"
    using scale_tetra_out(1) by (simp add: tetra_sixth_material_def)
  show ?thesis
    unfolding get_trisurface_unfold[OF ex_materials_one ex_get_sixth_material] q f v by simp
qed

theorem get_trisurface_unit_scale_witness:
  "fst (get_trisurface ex_host (ex_scene (1 / 100000) tetra_out empty_bm)
          (ex_ob ''A'' [Some steel] (0, 0, 0)) 2 True False) =
     Inr ([''Steel''], [(Finite 0, Finite 0, Finite 0), (Finite 2, Finite 0, Finite 0), (Finite 0, Finite 2, Finite 0), (Finite 0, Finite 0, Finite 2)],
          [(1, 3, 2, 1), (1, 2, 4, 1), (1, 4, 3, 1), (2, 3, 4, 1)]) \<and>
   [(Finite 0, Finite 0, Finite 0), (Finite 2, Finite 0, Finite 0), (Finite 0, Finite 2, Finite 0), (Finite 0, Finite 0, Finite 2)] =
     map (\<lambda>v. case co v of (x, y, z) \<Rightarrow> (float_mul x 2, float_mul y 2, float_mul z 2))
       (verts tetra_out) \<and>
   is_double (1 * 2) \<and> float_mul 1 2 = Finite (1 * 2) \<and>
   normal_range (1 * 2) \<and>
   (\<exists>y. float_mul 1 2 = Finite y \<and> \<bar>y - 1 * 2\<bar> \<le> \<bar>1 * 2\<bar> / 2 ^ 53) \<and>
   float_mul 2 3 = Finite 6 \<and> float_mul 1 6 = Finite 6 \<and> float_mul 1 2 = Finite 2 \<and>
   normal_range (2 * 3) \<and> normal_range (1 * 6) \<and>
   \<bar>6 - 2 * 3 :: real\<bar> \<le> 4 * \<bar>1 * 2 * 3\<bar> / 2 ^ 53 \<and>
   fst (get_trisurface ex_host (ex_scene (1 / 100000) tetra_out empty_bm)
          (ex_ob ''A'' [] (0, 0, 0)) 2 True False) = Inl (NoMaterial ''A'') \<and>
   get_trisurface ex_host (ex_scene (1 / 100000) tetra_out empty_bm)
       (ex_ob ''A'' [] (0, 0, 0)) 3 True False =
     (Inl (NoMaterial ''A''), ex_scene (1 / 100000) tetra_out empty_bm) \<and>
   (\<exists>vs'. get_trisurface ex_host (ex_scene (1 / 100000) tetra_out empty_bm)
            (ex_ob ''A'' [Some steel] (0, 0, 0)) 3 True False =
          (Inr ([''Steel''], vs', [(1, 3, 2, 1), (1, 2, 4, 1), (1, 4, 3, 1), (2, 3, 4, 1)]),
           ex_scene (1 / 100000) tetra_out empty_bm) \<and>
          length vs' = length ([(Finite 0, Finite 0, Finite 0), (Finite 2, Finite 0, Finite 0), (Finite 0, Finite 2, Finite 0), (Finite 0, Finite 0, Finite 2)] :: xbs_vert list))"
proof -
  let ?cx = "ex_scene (1 / 100000) tetra_out empty_bm"
  let ?ob = "ex_ob ''A'' [Some steel] (0, 0, 0)"
  let ?no = "ex_ob ''A'' [] (0, 0, 0) :: vec bpy_object"
  let ?vs = "[(Finite 0, Finite 0, Finite 0), (Finite 2, Finite 0, Finite 0), (Finite 0, Finite 2, Finite 0), (Finite 0, Finite 0, Finite 2)] :: xbs_vert list"
  let ?fs = "[(1, 3, 2, 1), (1, 2, 4, 1), (1, 4, 3, 1), (2, 3, 4, 1)] :: xbs_face list"
  note law = get_trisurface_unit_scale[of ex_host ?cx ?ob 2 True False 3]
  note law_no = get_trisurface_unit_scale[of ex_host ?cx ?no 2 True False 3]
  have ok: "fst (get_trisurface ex_host ?cx ?ob 2 True False) = Inr ([''Steel''], ?vs, ?fs)"
    by (simp add: ex_get_trisurface_tetra[OF ex_materials_one])
  have a: "?vs = map (\<lambda>v. case co v of (x, y, z) \<Rightarrow> (float_mul x 2, float_mul y 2, float_mul z 2))
      (verts tetra_out)"
    by (rule mp[OF mp[OF spec[OF spec[OF spec[OF spec[OF law[THEN conjunct1]]]]] ex_get_tetra_out] ok])
  have dbl: "is_double (1 * 2)"
    by (simp add: is_double_def ilog2_def Let_def pow2_def bitlen_numeral)
  have b: "float_mul 1 2 = Finite (1 * 2)"
    by (rule mp[OF spec[OF law[THEN conjunct2, THEN conjunct1]] dbl])
  have small: "pow2 (- 1022) \<le> 1" using pow2_mono[of "- 1022" 0] by (simp add: pow2_def)
  have n2: "normal_range (1 * 2)" and n6: "normal_range (2 * 3)" and n6': "normal_range (1 * 6)"
    using small by (simp_all add: normal_range_def)
  have c: "\<exists>y. float_mul 1 2 = Finite y \<and> \<bar>y - 1 * 2\<bar> \<le> \<bar>1 * 2\<bar> / 2 ^ 53"
    by (rule mp[OF spec[OF law[THEN conjunct2, THEN conjunct2, THEN conjunct1]] n2])
  note lawk = law[THEN conjunct2, THEN conjunct2, THEN conjunct2, THEN conjunct1, rule_format,
      of 3 6 1 6 2]
  have k: "\<bar>6 - 2 * 3 :: real\<bar> \<le> 4 * \<bar>1 * 2 * 3\<bar> / 2 ^ 53"
    by (rule lawk[OF float_mul_small(2) float_mul_small(3) float_mul_small(1) n6 n6' n2])
  have no: "fst (get_trisurface ex_host ?cx ?no 2 True False) = Inl (NoMaterial ''A'')"
    by (simp add: get_trisurface_def get_materials_def ex_ob_def)
  have d: "get_trisurface ex_host ?cx ?no 3 True False = (Inl (NoMaterial ''A''), ?cx)"
    by (rule mp[OF spec[OF law_no[THEN conjunct2, THEN conjunct2, THEN conjunct2, THEN conjunct2,
        THEN conjunct1]] no])
  have e: "\<exists>vs'. get_trisurface ex_host ?cx ?ob 3 True False = (Inr ([''Steel''], vs', ?fs), ?cx) \<and>
      length vs' = length ?vs"
    by (rule mp[OF spec[OF spec[OF spec[OF law[THEN conjunct2, THEN conjunct2, THEN conjunct2,
        THEN conjunct2, THEN conjunct2]]]] ok])
  show ?thesis
    by (intro conjI)
      (rule ok a dbl b n2 n6 n6' c k no d e float_mul_small)+
qed

lemma tenth_tetra_quality:
  "check_bm_quality H (ex_scene (1 / 100000) bmA bmB) ob tenth_tetra True =
     (Inr (), tenth_tetra, ex_scene (1 / 100000) bmA bmB)"
  by (simp add: check_bm_quality_def Let_def and_then_def check_defs bad_defs geom_defs ex_defs
      tenth_tetra_def)

lemma ex_get_tenth_tetra:
  "get_object_bmesh ex_host (ex_scene (1 / 100000) tenth_tetra bmB) (ex_ob ''A'' slots (0, 0, 0))
     None True True False = Inr tenth_tetra"
  by (simp add: ex_host_def ex_get_object_bmesh_def translate_bm_def vadd_def ex_defs
      tenth_tetra_def)

lemma ex_get_trisurface_tenth:
  assumes x: "float_mul (13421773 / 134217728) s = Finite c"
  shows "get_trisurface ex_host (ex_scene (1 / 100000) tenth_tetra empty_bm)
      (ex_ob ''A'' [Some steel] (0, 0, 0)) s True False =
     (Inr ([''Steel''],
           [(Finite 0, Finite 0, Finite 0), (Finite c, Finite 0, Finite 0),
            (Finite 0, Finite c, Finite 0), (Finite 0, Finite 0, Finite c)],
           [(1, 3, 2, 1), (1, 2, 4, 1), (1, 4, 3, 1), (2, 3, 4, 1)]),
      ex_scene (1 / 100000) tenth_tetra empty_bm)"
proof -
  let ?cx = "ex_scene (1 / 100000) tenth_tetra empty_bm"
  let ?ob = "ex_ob ''A'' [Some steel] (0, 0, 0)"
  have q: "fst (check_bm_quality ex_host ?cx ?ob tenth_tetra True) = Inr ()"
    by (simp add: tenth_tetra_quality)
  have f: "extract_faces (faces tenth_tetra) [] =
      Inr [(1, 3, 2, 1), (1, 2, 4, 1), (1, 4, 3, 1), (2, 3, 4, 1)]"
    by (simp add: tenth_tetra_def ex_defs)
  have v: "map (\<lambda>v. scale_co s (co v)) (verts tenth_tetra) =
      [(Finite 0, Finite 0, Finite 0), (Finite c, Finite 0, Finite 0),
       (Finite 0, Finite c, Finite 0), (Finite 0, Finite 0, Finite c)]"
    by (simp add: scale_co_def tenth_tetra_def ex_defs float_mul_zero x)
  show ?thesis
    unfolding get_trisurface_unfold[OF ex_materials_one ex_get_tenth_tetra] q f v by simp
qed

text \<open>
  C7 as stated fails: the products are rounded, so multiplying the scale by \<open>k\<close> does
  not multiply the output by exactly \<open>k\<close>.  On a tetrahedron with corners at
  \<open>0.10000000149011612\<close>, with the scale \<open>s = 0.1\<close> and the factor \<open>k = 0.1\<close> (the
  binary64 numbers nearest to one tenth), the scale multiplied by \<open>k\<close> is
  \<open>0.010000000000000002\<close>; extraction with it gives the coordinate
  \<open>0.0010000000149011615\<close>, extraction with \<open>s\<close> gives \<open>0.010000000149011612\<close>, and
  that multiplied by \<open>k\<close> is \<open>0.0010000000149011613\<close> as a float; the real product
  differs from the coordinate, too.
\<close>

theorem unit_scale_law_not_exact:
  "is_double (13421773 / 134217728) \<and> is_double (3602879701896397 / 36028797018963968) \<and>
   float_mul (3602879701896397 / 36028797018963968) (3602879701896397 / 36028797018963968) = Finite (1441151880758559 / 144115188075855872) \<and>
   fst (get_trisurface ex_host (ex_scene (1 / 100000) tenth_tetra empty_bm)
          (ex_ob ''A'' [Some steel] (0, 0, 0)) (3602879701896397 / 36028797018963968) True False) =
     Inr ([''Steel''],
          [(Finite 0, Finite 0, Finite 0), (Finite (5764607608933581 / 576460752303423488), Finite 0, Finite 0), (Finite 0, Finite (5764607608933581 / 576460752303423488), Finite 0), (Finite 0, Finite 0, Finite (5764607608933581 / 576460752303423488))],
          [(1, 3, 2, 1), (1, 2, 4, 1), (1, 4, 3, 1), (2, 3, 4, 1)]) \<and>
   fst (get_trisurface ex_host (ex_scene (1 / 100000) tenth_tetra empty_bm)
          (ex_ob ''A'' [Some steel] (0, 0, 0)) (1441151880758559 / 144115188075855872) True False) =
     Inr ([''Steel''],
          [(Finite 0, Finite 0, Finite 0), (Finite (2305843043573433 / 2305843009213693952), Finite 0, Finite 0), (Finite 0, Finite (2305843043573433 / 2305843009213693952), Finite 0), (Finite 0, Finite 0, Finite (2305843043573433 / 2305843009213693952))],
          [(1, 3, 2, 1), (1, 2, 4, 1), (1, 4, 3, 1), (2, 3, 4, 1)]) \<and>
   float_mul (5764607608933581 / 576460752303423488) (3602879701896397 / 36028797018963968) = Finite (4611686087146865 / 4611686018427387904) \<and>
   Finite (2305843043573433 / 2305843009213693952) \<noteq> Finite (4611686087146865 / 4611686018427387904) \<and>
   (2305843043573433 / 2305843009213693952 :: real) \<noteq> (5764607608933581 / 576460752303423488) * (3602879701896397 / 36028797018963968)"
proof -
  have d1: "is_double (13421773 / 134217728)" and d2: "is_double (3602879701896397 / 36028797018963968)"
    by (simp_all add: is_double_def ilog2_def Let_def pow2_def bitlen_numeral)
  have ne: "Finite (2305843043573433 / 2305843009213693952) \<noteq> Finite (4611686087146865 / 4611686018427387904)"
    and ne': "(2305843043573433 / 2305843009213693952 :: real) \<noteq> (5764607608933581 / 576460752303423488) * (3602879701896397 / 36028797018963968)"
    by simp_all
  show ?thesis
    by (intro conjI)
      (simp_all only: d1 d2 ne ne' float_mul_tenths fst_conv not_False_eq_True
        ex_get_trisurface_tenth[OF float_mul_tenths(3)] ex_get_trisurface_tenth[OF float_mul_tenths(2)])
qed

section \<open>The materials list\<close>

text \<open>
  C4 (as amended).  For every successful extraction the materials list has one entry per
  material slot, in slot order: the name of the material bound to that slot.  A material
  bound to two slots appears twice.
\<close>

theorem materials_one_per_slot:
  assumes "fst (get_trisurface H cx ob s check terrain) = Inr (mas, vs, fs)"
  shows "map Some mas = map (map_option ma_name) (material_slots ob) \<and>
         length mas = length (material_slots ob)"
proof -
  have "get_materials cx ob = Inr mas" using assms by (rule get_trisurface_Inr_materials)
  then have "map Some mas = map (map_option ma_name) (material_slots ob)"
    by (rule get_materials_Inr(1))
  then show ?thesis by (metis length_map)
qed

theorem materials_one_per_slot_witness:
  "fst (get_trisurface ex_host (ex_scene (1 / 100000) tetra_out empty_bm)
          (ex_ob ''A'' [Some steel, Some steel] (0, 0, 0)) 2 True False) =
     Inr ([''Steel'', ''Steel''], [(Finite 0, Finite 0, Finite 0), (Finite 2, Finite 0, Finite 0), (Finite 0, Finite 2, Finite 0), (Finite 0, Finite 0, Finite 2)],
          [(1, 3, 2, 1), (1, 2, 4, 1), (1, 4, 3, 1), (2, 3, 4, 1)]) \<and>
   map Some [''Steel'', ''Steel''] =
     map (map_option ma_name) (material_slots (ex_ob ''A'' [Some steel, Some steel] (0, 0, 0))) \<and>
   length [''Steel'', ''Steel''] = length (material_slots (ex_ob ''A'' [Some steel, Some steel] (0, 0, 0)))"
proof -
  have ok: "fst (get_trisurface ex_host (ex_scene (1 / 100000) tetra_out empty_bm)
          (ex_ob ''A'' [Some steel, Some steel] (0, 0, 0)) 2 True False) =
     Inr ([''Steel'', ''Steel''], [(Finite 0, Finite 0, Finite 0), (Finite 2, Finite 0, Finite 0), (Finite 0, Finite 2, Finite 0), (Finite 0, Finite 0, Finite 2)],
          [(1, 3, 2, 1), (1, 2, 4, 1), (1, 4, 3, 1), (2, 3, 4, 1)])"
    by (simp add: ex_get_trisurface_tetra[OF ex_materials_two])
  from materials_one_per_slot[OF ok] ok show ?thesis by blast
qed

text \<open>
  C4 as stated fails: with one material bound to two slots the exported materials list
  names it twice.
\<close>

theorem materials_not_deduplicated:
  "fst (get_trisurface ex_host (ex_scene (1 / 100000) tetra_out empty_bm)
          (ex_ob ''A'' [Some steel, Some steel] (0, 0, 0)) 2 True False) =
     Inr ([''Steel'', ''Steel''], [(Finite 0, Finite 0, Finite 0), (Finite 2, Finite 0, Finite 0), (Finite 0, Finite 2, Finite 0), (Finite 0, Finite 0, Finite 2)],
          [(1, 3, 2, 1), (1, 2, 4, 1), (1, 4, 3, 1), (2, 3, 4, 1)]) \<and>
   \<not> distinct [''Steel'', ''Steel'']"
  by (simp add: ex_get_trisurface_tetra[OF ex_materials_two])

section \<open>Degenerate faces\<close>

lemma set_bad_degenerate_faces:
  "set (bad_degenerate_faces bm ea) = {i. i < length (faces bm) \<and> calc_area (faces bm ! i) \<le> ea}"
  by (auto simp: bad_degenerate_faces_def)

lemma check_bm_degenerate_faces_fail:
  "bad_degenerate_faces bm ea \<noteq> [] \<Longrightarrow>
   fst (check_bm_degenerate_faces cx ob bm el ea True) =
     Inl (BFException (ob_name ob)
       (''Too small area faces detected ('' @ str_nat (length (bad_degenerate_faces bm ea)) @ '' faces).''))"
  by (simp add: check_bm_degenerate_faces_def Let_def raise_bad_geometry_protect)

text \<open>
  C9.  The degenerate-face check reports exactly the triangles whose area is at most
  \<open>epsilon_area\<close> and fails exactly when there is one, whatever \<open>protect\<close> is; with
  \<open>protect\<close> the failure is \<^verbatim>\<open>BFException\<close> with the message that counts them.  It
  is monotone in the tolerance: a triangle reported at \<open>epsilon_area\<close> is reported at
  every larger tolerance, and a mesh on which the check fails fails at every larger
  tolerance.
\<close>

theorem degenerate_faces_exact_and_monotone:
  "set (bad_degenerate_faces bm ea) =
     {i. i < length (faces bm) \<and> calc_area (faces bm ! i) \<le> ea} \<and>
   (fst (check_bm_degenerate_faces cx ob bm el ea p) \<noteq> Inr () \<longleftrightarrow>
      (\<exists>i<length (faces bm). calc_area (faces bm ! i) \<le> ea)) \<and>
   (fst (check_bm_degenerate_faces cx ob bm el ea True) \<noteq> Inr () \<longrightarrow>
      fst (check_bm_degenerate_faces cx ob bm el ea True) =
        Inl (BFException (ob_name ob)
          (''Too small area faces detected ('' @
             str_nat (length (bad_degenerate_faces bm ea)) @ '' faces).''))) \<and>
   (ea \<le> ea' \<longrightarrow>
      set (bad_degenerate_faces bm ea) \<subseteq> set (bad_degenerate_faces bm ea') \<and>
      (fst (check_bm_degenerate_faces cx ob bm el ea p) \<noteq> Inr () \<longrightarrow>
       fst (check_bm_degenerate_faces cx ob bm el ea' p) \<noteq> Inr ()))"
proof (intro conjI impI)
  show "set (bad_degenerate_faces bm ea) =
      {i. i < length (faces bm) \<and> calc_area (faces bm ! i) \<le> ea}"
    by (rule set_bad_degenerate_faces)
  have nonempty: "bad_degenerate_faces bm e \<noteq> [] \<longleftrightarrow>
      (\<exists>i<length (faces bm). calc_area (faces bm ! i) \<le> e)" for e
    using set_bad_degenerate_faces[of bm e] by (metis (mono_tags, lifting) Collect_empty_eq set_empty)
  show "fst (check_bm_degenerate_faces cx ob bm el ea p) \<noteq> Inr () \<longleftrightarrow>
      (\<exists>i<length (faces bm). calc_area (faces bm ! i) \<le> ea)"
    by (simp add: degenerate_faces_pass nonempty)
  show "fst (check_bm_degenerate_faces cx ob bm el ea True) =
      Inl (BFException (ob_name ob)
        (''Too small area faces detected ('' @
           str_nat (length (bad_degenerate_faces bm ea)) @ '' faces).''))"
    if "fst (check_bm_degenerate_faces cx ob bm el ea True) \<noteq> Inr ()"
    using that by (simp add: degenerate_faces_pass check_bm_degenerate_faces_fail)
  show "set (bad_degenerate_faces bm ea) \<subseteq> set (bad_degenerate_faces bm ea')" if "ea \<le> ea'"
    using that by (auto simp: set_bad_degenerate_faces)
  show "fst (check_bm_degenerate_faces cx ob bm el ea' p) \<noteq> Inr ()"
    if "ea \<le> ea'" "fst (check_bm_degenerate_faces cx ob bm el ea p) \<noteq> Inr ()"
  proof -
    from that(2) obtain i where "i < length (faces bm)" "calc_area (faces bm ! i) \<le> ea"
      by (auto simp: degenerate_faces_pass nonempty)
    with that(1) have "\<exists>i<length (faces bm). calc_area (faces bm ! i) \<le> ea'" by force
    then show ?thesis by (simp add: degenerate_faces_pass nonempty)
  qed
qed

lemma sliver_bad_small: "bad_degenerate_faces sliver_tetra (1 / 100000) = [3]"
  by (simp add: bad_degenerate_faces_def sliver_tetra_def ex_defs)

lemma sliver_bad_large: "bad_degenerate_faces sliver_tetra (6 / 10) = [0, 1, 2, 3]"
  by (simp add: bad_degenerate_faces_def sliver_tetra_def ex_defs)

theorem degenerate_faces_exact_and_monotone_witness:
  "set (bad_degenerate_faces sliver_tetra (1 / 100000)) = {3} \<and>
   fst (check_bm_degenerate_faces (ex_scene (1 / 100000) sliver_tetra empty_bm)
          (ex_ob ''A'' [Some steel] (0, 0, 0)) sliver_tetra (1 / 100000) (1 / 100000) True) =
     Inl (BFException ''A'' ''Too small area faces detected (1 faces).'') \<and>
   (1 / 100000 :: real) \<le> 6 / 10 \<and>
   set (bad_degenerate_faces sliver_tetra (1 / 100000)) \<subseteq>
     set (bad_degenerate_faces sliver_tetra (6 / 10)) \<and>
   fst (check_bm_degenerate_faces (ex_scene (1 / 100000) sliver_tetra empty_bm)
          (ex_ob ''A'' [Some steel] (0, 0, 0)) sliver_tetra (1 / 100000) (6 / 10) True) \<noteq> Inr ()"
proof -
  let ?cx = "ex_scene (1 / 100000) sliver_tetra empty_bm"
  let ?ob = "ex_ob ''A'' [Some steel] (0, 0, 0)"
  note T = degenerate_faces_exact_and_monotone
    [of sliver_tetra "1 / 100000" ?cx ?ob "1 / 100000" True "6 / 10"]
  have le: "(1 / 100000 :: real) \<le> 6 / 10" by simp
  have fails: "fst (check_bm_degenerate_faces ?cx ?ob sliver_tetra (1 / 100000) (1 / 100000) True) \<noteq> Inr ()"
    by (simp add: degenerate_faces_pass sliver_bad_small)
  have a: "set (bad_degenerate_faces sliver_tetra (1 / 100000)) = {3}"
    by (simp add: sliver_bad_small)
  from T[THEN conjunct2, THEN conjunct2, THEN conjunct1, rule_format, OF fails]
  have b: "fst (check_bm_degenerate_faces ?cx ?ob sliver_tetra (1 / 100000) (1 / 100000) True) =
     Inl (BFException ''A'' ''Too small area faces detected (1 faces).'')"
    by (simp add: sliver_bad_small str_nat_digit digit_char_def ex_ob_def)
  from T[THEN conjunct2, THEN conjunct2, THEN conjunct2, rule_format, OF le]
  have c: "set (bad_degenerate_faces sliver_tetra (1 / 100000)) \<subseteq>
     set (bad_degenerate_faces sliver_tetra (6 / 10))"
    and d: "fst (check_bm_degenerate_faces ?cx ?ob sliver_tetra (1 / 100000) (6 / 10) True) \<noteq> Inr ()"
    using fails by blast+
  from a b le c d show ?thesis by blast
qed

section \<open>Duplicate vertices\<close>

lemma dist_sq_nonneg: "0 \<le> dist_sq a b"
  by (cases a; cases b) (simp add: dist_sq_def)

lemma dist_sq_self: "dist_sq a a = 0"
  by (cases a) (simp add: dist_sq_def)

lemma dist_sq_commute: "dist_sq a b = dist_sq b a"
  by (cases a; cases b) (simp add: dist_sq_def algebra_simps)

lemma in_range_self: "in_range r a a"
  by (simp add: in_range_def dist_sq_self)

lemma in_range_commute: "in_range r a b \<longleftrightarrow> in_range r b a"
  by (simp add: in_range_def dist_sq_commute)

lemma in_range_iff_distance:
  assumes "0 \<le> r"
  shows "in_range r a b \<longleftrightarrow> sqrt (dist_sq a b) \<le> r"
proof -
  have "sqrt (dist_sq a b) \<le> r \<longleftrightarrow> sqrt (dist_sq a b) \<le> sqrt (r * r)"
    using assms by simp
  also have "\<dots> \<longleftrightarrow> dist_sq a b \<le> r * r" by (rule real_sqrt_le_iff)
  finally show ?thesis by (simp add: in_range_def)
qed

lemma set_points_in_range:
  "set (points_in_range kd c r) = {i. i < length kd \<and> in_range r (kd ! i) c}"
  by (auto simp: points_in_range_def)

lemma distinct_points_in_range: "distinct (points_in_range kd c r)"
  by (simp add: points_in_range_def)

lemma long_distinct_iff:
  assumes "distinct xs" and "x \<in> set xs"
  shows "1 < length xs \<longleftrightarrow> (\<exists>y\<in>set xs. y \<noteq> x)"
proof
  assume "1 < length xs"
  then have "1 < card (set xs)" using assms(1) by (simp add: distinct_card)
  then have "set xs \<noteq> {x}" by auto
  with assms(2) show "\<exists>y\<in>set xs. y \<noteq> x" by blast
next
  assume "\<exists>y\<in>set xs. y \<noteq> x"
  then obtain y where "y \<in> set xs" "y \<noteq> x" by blast
  with assms(2) have "{x, y} \<subseteq> set xs" by simp
  then have "card {x, y} \<le> card (set xs)" by (simp add: card_mono)
  with \<open>y \<noteq> x\<close> have "2 \<le> card (set xs)" by simp
  then show "1 < length xs" using assms(1) by (simp add: distinct_card)
qed

text \<open>With a radius that is not negative the loop returns, and what it returns is known.\<close>

lemma duplicate_loop_returns:
  assumes "0 \<le> r"
  shows "\<exists>out. duplicate_loop kd r cs acc = Inr out \<and>
     set out = set acc \<union>
       {i. \<exists>c\<in>set cs. 1 < length (points_in_range kd c r) \<and> i \<in> set (points_in_range kd c r)}"
proof (induction cs arbitrary: acc)
  case Nil
  then show ?case by simp
next
  case (Cons c cs)
  let ?acc = "if 1 < length (points_in_range kd c r) then acc @ points_in_range kd c r else acc"
  from Cons.IH[of ?acc] obtain out where out: "duplicate_loop kd r cs ?acc = Inr out"
    and set_out: "set out = set ?acc \<union>
       {i. \<exists>c\<in>set cs. 1 < length (points_in_range kd c r) \<and> i \<in> set (points_in_range kd c r)}"
    by blast
  have "duplicate_loop kd r (c # cs) acc = Inr out"
    using assms out by (simp add: find_range_def)
  moreover have "set out = set acc \<union>
       {i. \<exists>c\<in>set (c # cs). 1 < length (points_in_range kd c r) \<and> i \<in> set (points_in_range kd c r)}"
    unfolding set_out by auto
  ultimately show ?case by blast
qed

lemma duplicate_loop_negative:
  "r < 0 \<Longrightarrow> cs \<noteq> [] \<Longrightarrow> duplicate_loop kd r cs acc = Inl RuntimeError"
  by (cases cs) (simp_all add: find_range_def)

lemma in_some_group_iff:
  "(\<exists>c\<in>set (map co (verts bm)).
       1 < length (points_in_range (map co (verts bm)) c r) \<and>
       i \<in> set (points_in_range (map co (verts bm)) c r)) \<longleftrightarrow>
     i < length (verts bm) \<and>
     (\<exists>j<length (verts bm). j \<noteq> i \<and> in_range r (co (verts bm ! j)) (co (verts bm ! i)))"
  (is "?L \<longleftrightarrow> ?R")
proof
  let ?kd = "map co (verts bm)"
  let ?n = "length (verts bm)"
  assume ?L
  then obtain c where c: "c \<in> set ?kd" and long: "1 < length (points_in_range ?kd c r)"
    and i: "i \<in> set (points_in_range ?kd c r)"
    by blast
  from c obtain k where k: "k < ?n" and ck: "c = co (verts bm ! k)"
    by (auto simp: in_set_conv_nth)
  from i have i_lt: "i < ?n" and i_near: "in_range r (co (verts bm ! i)) c"
    by (auto simp: set_points_in_range)
  have k_in: "k \<in> set (points_in_range ?kd c r)"
    using k by (simp add: set_points_in_range ck in_range_self)
  show ?R
  proof (cases "i = k")
    case True
    from long_distinct_iff[OF distinct_points_in_range k_in] long
    obtain j where "j \<in> set (points_in_range ?kd c r)" "j \<noteq> k" by blast
    then have "j < ?n" "in_range r (co (verts bm ! j)) (co (verts bm ! k))"
      by (auto simp: set_points_in_range ck)
    with True \<open>j \<noteq> k\<close> i_lt show ?thesis by blast
  next
    case False
    from i_near have "in_range r (co (verts bm ! k)) (co (verts bm ! i))"
      by (simp add: ck in_range_commute)
    with False k i_lt show ?thesis by blast
  qed
next
  let ?kd = "map co (verts bm)"
  let ?n = "length (verts bm)"
  assume ?R
  then obtain j where i: "i < ?n" and j: "j < ?n" "j \<noteq> i"
    and near: "in_range r (co (verts bm ! j)) (co (verts bm ! i))" by blast
  let ?c = "co (verts bm ! i)"
  have i_in: "i \<in> set (points_in_range ?kd ?c r)"
    using i by (simp add: set_points_in_range in_range_self)
  have j_in: "j \<in> set (points_in_range ?kd ?c r)"
    using j near by (simp add: set_points_in_range)
  have "1 < length (points_in_range ?kd ?c r)"
    using long_distinct_iff[OF distinct_points_in_range i_in] j_in j(2) by blast
  moreover have "?c \<in> set ?kd" using i by simp
  ultimately show ?L using i_in by blast
qed

lemma bad_duplicate_vertices_returns:
  assumes "0 \<le> r"
  shows "\<exists>bad. bad_duplicate_vertices bm r = Inr bad \<and>
     (\<forall>i. i \<in> set bad \<longleftrightarrow>
        i < length (verts bm) \<and>
        (\<exists>j<length (verts bm). j \<noteq> i \<and> in_range r (co (verts bm ! j)) (co (verts bm ! i))))"
proof -
  from duplicate_loop_returns[OF assms, of "map co (verts bm)" "map co (verts bm)" "[]"]
  obtain bad where bad: "duplicate_loop (map co (verts bm)) r (map co (verts bm)) [] = Inr bad"
    and set_bad: "set bad =
       {i. \<exists>c\<in>set (map co (verts bm)).
            1 < length (points_in_range (map co (verts bm)) c r) \<and>
            i \<in> set (points_in_range (map co (verts bm)) c r)}"
    by auto
  have "bad_duplicate_vertices bm r = Inr bad"
    by (simp add: bad_duplicate_vertices_def bad)
  moreover have "i \<in> set bad \<longleftrightarrow>
        i < length (verts bm) \<and>
        (\<exists>j<length (verts bm). j \<noteq> i \<and> in_range r (co (verts bm ! j)) (co (verts bm ! i)))" for i
    unfolding set_bad mem_Collect_eq by (rule in_some_group_iff)
  ultimately show ?thesis by blast
qed

lemma bad_duplicate_vertices_negative:
  "r < 0 \<Longrightarrow> verts bm \<noteq> [] \<Longrightarrow> bad_duplicate_vertices bm r = Inl RuntimeError"
  by (simp add: bad_duplicate_vertices_def duplicate_loop_negative)

lemma perm_of_upt:
  assumes "mset perm = mset [0..<n]"
  shows "length perm = n" "set perm = {..<n}" "distinct perm"
proof -
  show "length perm = n" using assms by (metis length_upt mset_eq_length minus_nat.diff_0)
  show "set perm = {..<n}" using assms by (metis mset_eq_setD atLeast_upt)
  show "distinct perm" using assms by (metis distinct_upt mset_eq_imp_distinct_iff)
qed

lemma has_neighbour_permuted:
  assumes perm: "mset perm = mset [0..<length (verts bm)]"
    and vs: "verts bm' = map (\<lambda>k. verts bm ! k) perm"
    and k: "k < length (verts bm)"
  shows "(k < length (verts bm') \<and>
          (\<exists>j<length (verts bm'). j \<noteq> k \<and> in_range r (co (verts bm' ! j)) (co (verts bm' ! k)))) \<longleftrightarrow>
         (perm ! k < length (verts bm) \<and>
          (\<exists>j<length (verts bm). j \<noteq> perm ! k \<and>
             in_range r (co (verts bm ! j)) (co (verts bm ! (perm ! k)))))"
proof -
  let ?n = "length (verts bm)"
  note p = perm_of_upt[OF perm]
  have len: "length (verts bm') = ?n" by (simp add: vs p(1))
  have at: "verts bm' ! j = verts bm ! (perm ! j)" if "j < ?n" for j
    using that by (simp add: vs p(1))
  have img: "perm ! j < ?n" if "j < ?n" for j
    using that p(1,2) by (metis lessThan_iff nth_mem)
  have inj: "perm ! j = perm ! k \<longleftrightarrow> j = k" if "j < ?n" for j
    using that k p(1,3) by (simp add: nth_eq_iff_index_eq)
  have "(\<exists>j<?n. j \<noteq> k \<and> in_range r (co (verts bm' ! j)) (co (verts bm' ! k))) \<longleftrightarrow>
      (\<exists>j<?n. j \<noteq> k \<and> in_range r (co (verts bm ! (perm ! j))) (co (verts bm ! (perm ! k))))"
    using k by (auto simp: at)
  also have "\<dots> \<longleftrightarrow> (\<exists>j'<?n. j' \<noteq> perm ! k \<and> in_range r (co (verts bm ! j')) (co (verts bm ! (perm ! k))))"
  proof
    assume "\<exists>j<?n. j \<noteq> k \<and> in_range r (co (verts bm ! (perm ! j))) (co (verts bm ! (perm ! k)))"
    then obtain j where "j < ?n" "j \<noteq> k"
      "in_range r (co (verts bm ! (perm ! j))) (co (verts bm ! (perm ! k)))" by blast
    then show "\<exists>j'<?n. j' \<noteq> perm ! k \<and> in_range r (co (verts bm ! j')) (co (verts bm ! (perm ! k)))"
      using img[of j] inj[of j] by blast
  next
    assume "\<exists>j'<?n. j' \<noteq> perm ! k \<and> in_range r (co (verts bm ! j')) (co (verts bm ! (perm ! k)))"
    then obtain j' where j': "j' < ?n" "j' \<noteq> perm ! k"
      "in_range r (co (verts bm ! j')) (co (verts bm ! (perm ! k)))" by blast
    from j'(1) p(2) have "j' \<in> set perm" by simp
    then obtain j where "j < ?n" "perm ! j = j'" using p(1) by (auto simp: in_set_conv_nth)
    with j' show "\<exists>j<?n. j \<noteq> k \<and> in_range r (co (verts bm ! (perm ! j))) (co (verts bm ! (perm ! k)))"
      by blast
  qed
  finally show ?thesis using k img[OF k] by (simp add: len)
qed

text \<open>
  C8.  For a radius that is not negative the duplicate-vertex detection returns, and
  the vertices it reports (the set of the list \<open>bad\<close>, which names a vertex once for
  every group it is found in) are exactly those with another vertex within the radius.
  Hence: the relation is symmetric (of two distinct vertices within the radius of each
  other both are reported); every vertex of a group in which each member has another
  member within the radius is reported, whatever the size of the group; and the result
  does not depend on the order of enumeration (after a permutation of the vertices, a
  vertex is reported if and only if it was reported before).  Within the radius is
  Euclidean distance at most \<open>r\<close>.  The check fails exactly when a vertex is reported.
\<close>

theorem duplicate_vertices_reported:
  assumes "0 \<le> r"
  shows "\<exists>bad. bad_duplicate_vertices bm r = Inr bad \<and>
   (\<forall>i. i \<in> set bad \<longleftrightarrow>
        i < length (verts bm) \<and>
        (\<exists>j<length (verts bm). j \<noteq> i \<and> in_range r (co (verts bm ! j)) (co (verts bm ! i)))) \<and>
   (\<forall>i j. i < length (verts bm) \<longrightarrow> j < length (verts bm) \<longrightarrow> i \<noteq> j \<longrightarrow>
        in_range r (co (verts bm ! i)) (co (verts bm ! j)) \<longrightarrow> i \<in> set bad \<and> j \<in> set bad) \<and>
   (\<forall>G. G \<subseteq> {..<length (verts bm)} \<longrightarrow>
        (\<forall>i\<in>G. \<exists>j\<in>G. j \<noteq> i \<and> in_range r (co (verts bm ! j)) (co (verts bm ! i))) \<longrightarrow>
        G \<subseteq> set bad) \<and>
   (\<forall>perm (bm'::bmesh). mset perm = mset [0..<length (verts bm)] \<longrightarrow>
        verts bm' = map (\<lambda>k. verts bm ! k) perm \<longrightarrow>
        (\<exists>bad'. bad_duplicate_vertices bm' r = Inr bad' \<and>
           (\<forall>k<length (verts bm). k \<in> set bad' \<longleftrightarrow> perm ! k \<in> set bad))) \<and>
   (\<forall>a b. in_range r a b \<longleftrightarrow> sqrt (dist_sq a b) \<le> r) \<and>
   (fst (check_bm_duplicate_vertices cx ob bm r ea p) \<noteq> Inr () \<longleftrightarrow> bad \<noteq> [])"
proof -
  from bad_duplicate_vertices_returns[OF assms, of bm]
  obtain bad where bad: "bad_duplicate_vertices bm r = Inr bad"
    and mem: "\<And>i. i \<in> set bad \<longleftrightarrow>
        i < length (verts bm) \<and>
        (\<exists>j<length (verts bm). j \<noteq> i \<and> in_range r (co (verts bm ! j)) (co (verts bm ! i)))"
    by blast
  have sym: "i \<in> set bad \<and> j \<in> set bad"
    if "i < length (verts bm)" "j < length (verts bm)" "i \<noteq> j"
      "in_range r (co (verts bm ! i)) (co (verts bm ! j))" for i j
  proof -
    from that(4) have "in_range r (co (verts bm ! j)) (co (verts bm ! i))"
      by (simp add: in_range_commute)
    with that show ?thesis unfolding mem by blast
  qed
  have group: "G \<subseteq> set bad"
    if "G \<subseteq> {..<length (verts bm)}"
      "\<forall>i\<in>G. \<exists>j\<in>G. j \<noteq> i \<and> in_range r (co (verts bm ! j)) (co (verts bm ! i))" for G
    using that unfolding subset_iff lessThan_iff mem by blast
  have perm: "\<exists>bad'. bad_duplicate_vertices bm' r = Inr bad' \<and>
           (\<forall>k<length (verts bm). k \<in> set bad' \<longleftrightarrow> perm ! k \<in> set bad)"
    if p: "mset perm = mset [0..<length (verts bm)]" and vs: "verts bm' = map (\<lambda>k. verts bm ! k) perm"
    for perm and bm' :: bmesh
  proof -
    from bad_duplicate_vertices_returns[OF assms, of bm']
    obtain bad' where bad': "bad_duplicate_vertices bm' r = Inr bad'"
      and mem': "\<And>i. i \<in> set bad' \<longleftrightarrow>
        i < length (verts bm') \<and>
        (\<exists>j<length (verts bm'). j \<noteq> i \<and> in_range r (co (verts bm' ! j)) (co (verts bm' ! i)))"
      by blast
    have "k \<in> set bad' \<longleftrightarrow> perm ! k \<in> set bad" if "k < length (verts bm)" for k
      unfolding mem mem' by (rule has_neighbour_permuted[OF p vs that])
    with bad' show ?thesis by blast
  qed
  have dist: "in_range r a b \<longleftrightarrow> sqrt (dist_sq a b) \<le> r" for a b
    using assms by (rule in_range_iff_distance)
  have fails: "fst (check_bm_duplicate_vertices cx ob bm r ea p) \<noteq> Inr () \<longleftrightarrow> bad \<noteq> []"
    by (simp add: duplicate_vertices_pass bad)
  show ?thesis
  proof (rule exI[where x = bad], intro conjI)
    show "bad_duplicate_vertices bm r = Inr bad" by (rule bad)
    show "\<forall>i. i \<in> set bad \<longleftrightarrow>
        i < length (verts bm) \<and>
        (\<exists>j<length (verts bm). j \<noteq> i \<and> in_range r (co (verts bm ! j)) (co (verts bm ! i)))"
      using mem by blast
    show "\<forall>i j. i < length (verts bm) \<longrightarrow> j < length (verts bm) \<longrightarrow> i \<noteq> j \<longrightarrow>
        in_range r (co (verts bm ! i)) (co (verts bm ! j)) \<longrightarrow> i \<in> set bad \<and> j \<in> set bad"
      using sym by blast
    show "\<forall>G. G \<subseteq> {..<length (verts bm)} \<longrightarrow>
        (\<forall>i\<in>G. \<exists>j\<in>G. j \<noteq> i \<and> in_range r (co (verts bm ! j)) (co (verts bm ! i))) \<longrightarrow>
        G \<subseteq> set bad"
      using group by blast
    show "\<forall>perm (bm'::bmesh). mset perm = mset [0..<length (verts bm)] \<longrightarrow>
        verts bm' = map (\<lambda>k. verts bm ! k) perm \<longrightarrow>
        (\<exists>bad'. bad_duplicate_vertices bm' r = Inr bad' \<and>
           (\<forall>k<length (verts bm). k \<in> set bad' \<longleftrightarrow> perm ! k \<in> set bad))"
      using perm by blast
    show "\<forall>a b. in_range r a b \<longleftrightarrow> sqrt (dist_sq a b) \<le> r"
      using dist by blast
    show "fst (check_bm_duplicate_vertices cx ob bm r ea p) \<noteq> Inr () \<longleftrightarrow> bad \<noteq> []"
      by (rule fails)
  qed
qed

lemma dup_mesh_bad:
  "bad_duplicate_vertices (dup_mesh [(0, 0, 0), (0, 0, 0), (0, 0, 0), (5, 0, 0)]) (1 / 100000) =
     Inr [0, 1, 2, 0, 1, 2, 0, 1, 2]"
  by (simp add: geom_defs dup_mesh_def mk_vert_def)

theorem duplicate_vertices_reported_witness:
  "(0::real) \<le> 1 / 100000 \<and>
   bad_duplicate_vertices (dup_mesh [(0, 0, 0), (0, 0, 0), (0, 0, 0), (5, 0, 0)]) (1 / 100000) =
     Inr [0, 1, 2, 0, 1, 2, 0, 1, 2] \<and>
   {0, 1, 2} \<subseteq> set [0, 1, 2, 0, 1, 2, 0, 1, 2 :: nat] \<and>
   3 \<notin> set [0, 1, 2, 0, 1, 2, 0, 1, 2 :: nat] \<and>
   mset [3, 0, 1, 2] = mset [0..<4] \<and>
   (\<exists>bad'. bad_duplicate_vertices (dup_mesh [(5, 0, 0), (0, 0, 0), (0, 0, 0), (0, 0, 0)]) (1 / 100000) =
       Inr bad' \<and> 1 \<in> set bad' \<and> 0 \<notin> set bad') \<and>
   sqrt (dist_sq (0, 0, 0) (0, 0, 0)) \<le> 1 / 100000 \<and>
   fst (check_bm_duplicate_vertices (ex_scene (1 / 100000) empty_bm empty_bm)
          (ex_ob ''A'' [Some steel] (0, 0, 0))
          (dup_mesh [(0, 0, 0), (0, 0, 0), (0, 0, 0), (5, 0, 0)]) (1 / 100000) (1 / 100000) True) \<noteq> Inr ()"
proof -
  let ?bm = "dup_mesh [(0, 0, 0), (0, 0, 0), (0, 0, 0), (5, 0, 0)]"
  let ?bm' = "dup_mesh [(5, 0, 0), (0, 0, 0), (0, 0, 0), (0, 0, 0)]"
  let ?r = "1 / 100000 :: real"
  let ?cx = "ex_scene (1 / 100000) empty_bm empty_bm"
  let ?ob = "ex_ob ''A'' [Some steel] (0, 0, 0)"
  have r: "0 \<le> ?r" by simp
  have n: "length (verts ?bm) = 4" by (simp add: dup_mesh_def)
  from duplicate_vertices_reported[OF r, of ?bm ?cx ?ob ?r True]
  obtain bad where bad: "bad_duplicate_vertices ?bm ?r = Inr bad"
    and mem: "\<forall>i. i \<in> set bad \<longleftrightarrow>
        i < length (verts ?bm) \<and>
        (\<exists>j<length (verts ?bm). j \<noteq> i \<and> in_range ?r (co (verts ?bm ! j)) (co (verts ?bm ! i)))"
    and group: "\<forall>G. G \<subseteq> {..<length (verts ?bm)} \<longrightarrow>
        (\<forall>i\<in>G. \<exists>j\<in>G. j \<noteq> i \<and> in_range ?r (co (verts ?bm ! j)) (co (verts ?bm ! i))) \<longrightarrow>
        G \<subseteq> set bad"
    and perm: "\<forall>perm (bm'::bmesh). mset perm = mset [0..<length (verts ?bm)] \<longrightarrow>
        verts bm' = map (\<lambda>k. verts ?bm ! k) perm \<longrightarrow>
        (\<exists>bad'. bad_duplicate_vertices bm' ?r = Inr bad' \<and>
           (\<forall>k<length (verts ?bm). k \<in> set bad' \<longleftrightarrow> perm ! k \<in> set bad))"
    and dist: "\<forall>a b. in_range ?r a b \<longleftrightarrow> sqrt (dist_sq a b) \<le> ?r"
    and fails: "fst (check_bm_duplicate_vertices ?cx ?ob ?bm ?r ?r True) \<noteq> Inr () \<longleftrightarrow> bad \<noteq> []"
    by (elim exE conjE) (rule that; assumption)
  from bad have bad_eq: "bad = [0, 1, 2, 0, 1, 2, 0, 1, 2]" by (simp add: dup_mesh_bad)
  have sub: "{0, 1, 2} \<subseteq> {..<length (verts ?bm)}" by (simp add: n)
  have near: "\<forall>i\<in>{0, 1, 2}. \<exists>j\<in>{0, 1, 2}. j \<noteq> i \<and> in_range ?r (co (verts ?bm ! j)) (co (verts ?bm ! i))"
    by (simp add: dup_mesh_def mk_vert_def in_range_def dist_sq_def)
  have a: "{0, 1, 2} \<subseteq> set bad" by (rule mp[OF mp[OF spec[OF group] sub] near])
  have far: "\<not> in_range ?r (co (verts ?bm ! j)) (co (verts ?bm ! 3))" if "j < 4" "j \<noteq> 3" for j
  proof -
    from that have "j = 0 \<or> j = 1 \<or> j = 2" by linarith
    then show ?thesis by (auto simp: dup_mesh_def mk_vert_def in_range_def dist_sq_def)
  qed
  then have "\<not> (\<exists>j<length (verts ?bm). j \<noteq> 3 \<and> in_range ?r (co (verts ?bm ! j)) (co (verts ?bm ! 3)))"
    unfolding n by blast
  then have b: "3 \<notin> set bad" using spec[OF mem, of 3] by blast
  have p: "mset [3, 0, 1, 2] = mset [0..<length (verts ?bm)]" unfolding n by code_simp
  have vs: "verts ?bm' = map (\<lambda>k. verts ?bm ! k) [3, 0, 1, 2]" by (simp add: dup_mesh_def)
  from mp[OF mp[OF spec[OF spec[OF perm]] p] vs]
  obtain bad' where bad': "bad_duplicate_vertices ?bm' ?r = Inr bad'"
    and iff: "\<forall>k<length (verts ?bm). k \<in> set bad' \<longleftrightarrow> [3, 0, 1, 2] ! k \<in> set bad" by blast
  have c: "1 \<in> set bad'" using spec[OF iff, of 1] a by (simp add: n)
  have d: "0 \<notin> set bad'" using spec[OF iff, of 0] b by (simp add: n)
  have e: "sqrt (dist_sq (0, 0, 0) (0, 0, 0)) \<le> ?r"
    using spec[OF spec[OF dist], of "(0, 0, 0)" "(0, 0, 0)"] by (simp add: in_range_self)
  have f: "fst (check_bm_duplicate_vertices ?cx ?ob ?bm ?r ?r True) \<noteq> Inr ()"
    using fails by (simp add: bad_eq)
  have g: "mset [3, 0, 1, 2] = mset [0..<4]" using p by (simp only: n)
  show ?thesis
  proof (intro conjI)
    show "0 \<le> ?r" by (rule r)
    show "bad_duplicate_vertices ?bm ?r = Inr [0, 1, 2, 0, 1, 2, 0, 1, 2]" by (rule dup_mesh_bad)
    show "{0, 1, 2} \<subseteq> set [0, 1, 2, 0, 1, 2, 0, 1, 2 :: nat]" by (rule a[unfolded bad_eq])
    show "3 \<notin> set [0, 1, 2, 0, 1, 2, 0, 1, 2 :: nat]" by (rule b[unfolded bad_eq])
    show "mset [3, 0, 1, 2] = mset [0..<4]" by (rule g)
    show "\<exists>bad'. bad_duplicate_vertices ?bm' ?r = Inr bad' \<and> 1 \<in> set bad' \<and> 0 \<notin> set bad'"
      using bad' c d by blast
    show "sqrt (dist_sq (0, 0, 0) (0, 0, 0)) \<le> ?r" by (rule e)
    show "fst (check_bm_duplicate_vertices ?cx ?ob ?bm ?r ?r True) \<noteq> Inr ()" by (rule f)
  qed
qed

section \<open>Order of the checks\<close>

text \<open>
  C1 (as amended).  The validator runs the seven checks in the order manifold vertices,
  manifold edges, degenerate edges, degenerate faces, loose vertices, duplicate vertices,
  normal consistency, and stops at the first that fails: when the checks before the
  \<open>k\<close>-th in this order pass and the \<open>k\<close>-th fails, the outcome of the validator
  (exception, mesh and scene) is the outcome of that check alone, so no later check has
  run.  When all seven pass, the outcome is that of the last one, the normals check.
\<close>

theorem check_bm_quality_fail_fast:
  assumes outs: "outs =
      [check_bm_manifold_verts cx ob bm (bf_config_min_edge_length cx) (bf_config_min_face_area cx) protect,
       check_bm_manifold_edges cx ob bm (bf_config_min_edge_length cx) (bf_config_min_face_area cx) protect,
       check_bm_degenerate_edges cx ob bm (bf_config_min_edge_length cx) (bf_config_min_face_area cx) protect,
       check_bm_degenerate_faces cx ob bm (bf_config_min_edge_length cx) (bf_config_min_face_area cx) protect,
       check_bm_loose_vertices cx ob bm (bf_config_min_edge_length cx) (bf_config_min_face_area cx) protect,
       check_bm_duplicate_vertices cx ob bm (bf_config_min_edge_length cx) (bf_config_min_face_area cx) protect,
       check_bm_normals H cx ob bm (bf_config_min_edge_length cx) (bf_config_min_face_area cx) protect]"
  shows "(\<forall>k<7. (\<forall>i<k. fst (outs ! i) = Inr ()) \<longrightarrow> fst (outs ! k) \<noteq> Inr () \<longrightarrow>
            check_bm_quality H cx ob bm protect = outs ! k) \<and>
         ((\<forall>i<7. fst (outs ! i) = Inr ()) \<longrightarrow> check_bm_quality H cx ob bm protect = outs ! 6)"
proof (intro conjI allI impI)
  fix k :: nat
  assume k: "k < 7" and before: "\<forall>i<k. fst (outs ! i) = Inr ()" and fails: "fst (outs ! k) \<noteq> Inr ()"
  have passed: "fst (outs ! i) = Inr ()" if "i < k" for i using before that by blast
  from k consider "k = 0" | "k = 1" | "k = 2" | "k = 3" | "k = 4" | "k = 5" | "k = 6" by linarith
  then show "check_bm_quality H cx ob bm protect = outs ! k"
  proof cases
    case 1
    then show ?thesis using fails unfolding outs check_bm_quality_def Let_def
      by (simp add: and_then_fail)
  next
    case 2
    then show ?thesis using fails passed[of 0] unfolding outs check_bm_quality_def Let_def
      by (simp add: and_then_fail and_then_pass passed_check_returns_state)
  next
    case 3
    then show ?thesis using fails passed[of 0] passed[of 1] unfolding outs check_bm_quality_def Let_def
      by (simp add: and_then_fail and_then_pass passed_check_returns_state)
  next
    case 4
    then show ?thesis using fails passed[of 0] passed[of 1] passed[of 2]
      unfolding outs check_bm_quality_def Let_def
      by (simp add: and_then_fail and_then_pass passed_check_returns_state)
  next
    case 5
    then show ?thesis using fails passed[of 0] passed[of 1] passed[of 2] passed[of 3]
      unfolding outs check_bm_quality_def Let_def
      by (simp add: and_then_fail and_then_pass passed_check_returns_state)
  next
    case 6
    then show ?thesis using fails passed[of 0] passed[of 1] passed[of 2] passed[of 3] passed[of 4]
      unfolding outs check_bm_quality_def Let_def
      by (simp add: and_then_fail and_then_pass passed_check_returns_state)
  next
    case 7
    then show ?thesis
      using fails passed[of 0] passed[of 1] passed[of 2] passed[of 3] passed[of 4] passed[of 5]
      unfolding outs check_bm_quality_def Let_def
      by (simp add: and_then_fail and_then_pass passed_check_returns_state)
  qed
next
  assume all: "\<forall>i<7. fst (outs ! i) = Inr ()"
  have passed: "fst (outs ! i) = Inr ()" if "i < 7" for i using all that by blast
  show "check_bm_quality H cx ob bm protect = outs ! 6"
    using passed[of 0] passed[of 1] passed[of 2] passed[of 3] passed[of 4] passed[of 5]
    unfolding outs check_bm_quality_def Let_def
    by (simp add: and_then_pass passed_check_returns_state)
qed

lemma flipped_verts_ok: "bad_manifold_verts tetra_one_flipped = []"
  by (simp add: bad_defs ex_defs)

lemma flipped_edges_ok: "bad_manifold_edges tetra_one_flipped = []"
  by (simp add: bad_defs ex_defs)

lemma flipped_short_edges: "bad_degenerate_edges tetra_one_flipped 2 = [0, 1, 2, 3, 4, 5]"
  by (simp add: bad_defs ex_defs)

lemma flipped_normals: "bad_normal_edges tetra_one_flipped = [3, 4, 5]"
  by (simp add: bad_defs ex_defs)

lemma flipped_degenerate_edges_outcome:
  "check_bm_degenerate_edges cx (ex_ob ''A'' slots w) tetra_one_flipped 2 ea True =
     (Inl (BFException ''A'' ''Too short edges detected (6 edges).''), tetra_one_flipped, cx)"
  by (simp add: check_bm_degenerate_edges_def flipped_short_edges raise_bad_geometry_protect
      str_nat_digit digit_char_def ex_ob_def)

lemma flipped_normals_outcome:
  "check_bm_normals H cx (ex_ob ''A'' slots w) tetra_one_flipped el ea True =
     (Inl (BFException ''A'' ''Inconsistent face normals detected (3 edges).''), tetra_one_flipped, cx)"
  by (simp add: check_bm_normals_def flipped_normals raise_bad_geometry_protect
      str_nat_digit digit_char_def ex_ob_def)

theorem check_bm_quality_fail_fast_witness:
  "fst (check_bm_manifold_verts (ex_scene 2 tetra_one_flipped empty_bm)
          (ex_ob ''A'' [Some steel] (0, 0, 0)) tetra_one_flipped 2 (1 / 100000) True) = Inr () \<and>
   fst (check_bm_manifold_edges (ex_scene 2 tetra_one_flipped empty_bm)
          (ex_ob ''A'' [Some steel] (0, 0, 0)) tetra_one_flipped 2 (1 / 100000) True) = Inr () \<and>
   check_bm_degenerate_edges (ex_scene 2 tetra_one_flipped empty_bm)
          (ex_ob ''A'' [Some steel] (0, 0, 0)) tetra_one_flipped 2 (1 / 100000) True =
     (Inl (BFException ''A'' ''Too short edges detected (6 edges).''), tetra_one_flipped,
      ex_scene 2 tetra_one_flipped empty_bm) \<and>
   check_bm_quality ex_host (ex_scene 2 tetra_one_flipped empty_bm)
          (ex_ob ''A'' [Some steel] (0, 0, 0)) tetra_one_flipped True =
     (Inl (BFException ''A'' ''Too short edges detected (6 edges).''), tetra_one_flipped,
      ex_scene 2 tetra_one_flipped empty_bm)"
proof -
  let ?cx = "ex_scene 2 tetra_one_flipped empty_bm"
  let ?ob = "ex_ob ''A'' [Some steel] (0, 0, 0)"
  let ?bm = tetra_one_flipped
  let ?outs = "[check_bm_manifold_verts ?cx ?ob ?bm (bf_config_min_edge_length ?cx) (bf_config_min_face_area ?cx) True,
       check_bm_manifold_edges ?cx ?ob ?bm (bf_config_min_edge_length ?cx) (bf_config_min_face_area ?cx) True,
       check_bm_degenerate_edges ?cx ?ob ?bm (bf_config_min_edge_length ?cx) (bf_config_min_face_area ?cx) True,
       check_bm_degenerate_faces ?cx ?ob ?bm (bf_config_min_edge_length ?cx) (bf_config_min_face_area ?cx) True,
       check_bm_loose_vertices ?cx ?ob ?bm (bf_config_min_edge_length ?cx) (bf_config_min_face_area ?cx) True,
       check_bm_duplicate_vertices ?cx ?ob ?bm (bf_config_min_edge_length ?cx) (bf_config_min_face_area ?cx) True,
       check_bm_normals ex_host ?cx ?ob ?bm (bf_config_min_edge_length ?cx) (bf_config_min_face_area ?cx) True]"
  have tol: "bf_config_min_edge_length ?cx = 2" "bf_config_min_face_area ?cx = 1 / 100000"
    by (simp_all add: ex_scene_def)
  have a: "fst (check_bm_manifold_verts ?cx ?ob ?bm 2 (1 / 100000) True) = Inr ()"
    by (simp add: manifold_verts_pass flipped_verts_ok)
  have b: "fst (check_bm_manifold_edges ?cx ?ob ?bm 2 (1 / 100000) True) = Inr ()"
    by (simp add: manifold_edges_pass flipped_edges_ok)
  note c = flipped_degenerate_edges_outcome[of ?cx "[Some steel]" "(0, 0, 0)" "1 / 100000"]
  have before: "\<forall>i<2. fst (?outs ! i) = Inr ()"
    using a b by (auto simp: tol less_2_cases_iff)
  have fails: "fst (?outs ! 2) \<noteq> Inr ()" using c by (simp add: tol)
  have "check_bm_quality ex_host ?cx ?ob ?bm True = ?outs ! 2"
    using check_bm_quality_fail_fast[OF refl, of ?cx ?ob ?bm True ex_host, THEN conjunct1, rule_format,
        of 2] before fails by simp
  then have d: "check_bm_quality ex_host ?cx ?ob ?bm True =
      (Inl (BFException ''A'' ''Too short edges detected (6 edges).''), ?bm, ?cx)"
    using c by (simp add: tol)
  from a b c d show ?thesis by blast
qed

text \<open>
  C1 as stated fails: on the tetrahedron with one face flipped and a minimal edge length
  of 2, the manifold checks pass and the normals check, third in the order of the
  specification, fails; the diagnostic returned is that of the degenerate-edge check.
\<close>

theorem normals_check_not_third:
  "fst (check_bm_manifold_verts (ex_scene 2 tetra_one_flipped empty_bm)
          (ex_ob ''A'' [Some steel] (0, 0, 0)) tetra_one_flipped 2 (1 / 100000) True) = Inr () \<and>
   fst (check_bm_manifold_edges (ex_scene 2 tetra_one_flipped empty_bm)
          (ex_ob ''A'' [Some steel] (0, 0, 0)) tetra_one_flipped 2 (1 / 100000) True) = Inr () \<and>
   fst (check_bm_normals ex_host (ex_scene 2 tetra_one_flipped empty_bm)
          (ex_ob ''A'' [Some steel] (0, 0, 0)) tetra_one_flipped 2 (1 / 100000) True) =
     Inl (BFException ''A'' ''Inconsistent face normals detected (3 edges).'') \<and>
   fst (check_bm_quality ex_host (ex_scene 2 tetra_one_flipped empty_bm)
          (ex_ob ''A'' [Some steel] (0, 0, 0)) tetra_one_flipped True) =
     Inl (BFException ''A'' ''Too short edges detected (6 edges).'')"
proof -
  let ?cx = "ex_scene 2 tetra_one_flipped empty_bm"
  let ?ob = "ex_ob ''A'' [Some steel] (0, 0, 0)"
  have tol: "bf_config_min_edge_length ?cx = 2" by (simp add: ex_scene_def)
  have a: "check_bm_manifold_verts ?cx ?ob tetra_one_flipped 2 ea True = (Inr (), tetra_one_flipped, ?cx)" for ea
    by (simp add: check_bm_manifold_verts_def flipped_verts_ok)
  have b: "check_bm_manifold_edges ?cx ?ob tetra_one_flipped 2 ea True = (Inr (), tetra_one_flipped, ?cx)" for ea
    by (simp add: check_bm_manifold_edges_def flipped_edges_ok)
  have "check_bm_quality ex_host ?cx ?ob tetra_one_flipped True =
      (Inl (BFException ''A'' ''Too short edges detected (6 edges).''), tetra_one_flipped, ?cx)"
    unfolding check_bm_quality_def Let_def tol a b and_then_pass flipped_degenerate_edges_outcome
    by (simp add: and_then_def)
  then show ?thesis
    by (simp add: a b flipped_normals_outcome)
qed

section \<open>What a passing check does to the mesh\<close>

text \<open>
  C2 (as amended).  A check that finds no offending element returns normally and leaves
  the mesh and the scene exactly as it received them, for every value of \<open>protect\<close>,
  with one exception: the normals check with \<open>protect\<close> false hands the mesh to
  \<^verbatim>\<open>bmesh.ops.recalc_face_normals\<close> and returns what that makes of it.
\<close>

theorem checks_leave_mesh_unless_recalc:
  "(bad_manifold_verts bm = [] \<longrightarrow>
      check_bm_manifold_verts cx ob bm el ea p = (Inr (), bm, cx)) \<and>
   (bad_manifold_edges bm = [] \<longrightarrow>
      check_bm_manifold_edges cx ob bm el ea p = (Inr (), bm, cx)) \<and>
   (bad_degenerate_edges bm el = [] \<longrightarrow>
      check_bm_degenerate_edges cx ob bm el ea p = (Inr (), bm, cx)) \<and>
   (bad_degenerate_faces bm ea = [] \<longrightarrow>
      check_bm_degenerate_faces cx ob bm el ea p = (Inr (), bm, cx)) \<and>
   (bad_loose_vertices bm = [] \<longrightarrow>
      check_bm_loose_vertices cx ob bm el ea p = (Inr (), bm, cx)) \<and>
   (bad_duplicate_vertices bm el = Inr [] \<longrightarrow>
      check_bm_duplicate_vertices cx ob bm el ea p = (Inr (), bm, cx)) \<and>
   (bad_normal_edges bm = [] \<longrightarrow>
      check_bm_normals H cx ob bm el ea p =
        (Inr (), if p then bm else recalc_face_normals H bm, cx))"
  by (simp add: check_defs)

lemma tetra_in_bad:
  "bad_manifold_verts tetra_in = []" "bad_manifold_edges tetra_in = []"
  "bad_degenerate_edges tetra_in (1 / 100000) = []" "bad_degenerate_faces tetra_in (1 / 100000) = []"
  "bad_loose_vertices tetra_in = []" "bad_normal_edges tetra_in = []"
  by (simp_all add: bad_defs ex_defs)

lemma tetra_in_no_duplicates: "bad_duplicate_vertices tetra_in (1 / 100000) = Inr []"
  by (simp add: geom_defs ex_defs)

lemma recalc_tetra_in: "recalc_face_normals ex_host tetra_in = tetra_out"
  by (simp add: ex_host_def ex_recalc_face_normals_def signed_volume6_def det3_def ex_defs)

lemma tetra_in_differs: "faces tetra_in \<noteq> faces tetra_out"
  by (simp add: ex_defs)

theorem checks_leave_mesh_unless_recalc_witness:
  "check_bm_manifold_verts (ex_scene (1 / 100000) tetra_in empty_bm) (ex_ob ''A'' [Some steel] (0, 0, 0))
       tetra_in (1 / 100000) (1 / 100000) False =
     (Inr (), tetra_in, ex_scene (1 / 100000) tetra_in empty_bm) \<and>
   check_bm_manifold_edges (ex_scene (1 / 100000) tetra_in empty_bm) (ex_ob ''A'' [Some steel] (0, 0, 0))
       tetra_in (1 / 100000) (1 / 100000) False =
     (Inr (), tetra_in, ex_scene (1 / 100000) tetra_in empty_bm) \<and>
   check_bm_degenerate_edges (ex_scene (1 / 100000) tetra_in empty_bm) (ex_ob ''A'' [Some steel] (0, 0, 0))
       tetra_in (1 / 100000) (1 / 100000) False =
     (Inr (), tetra_in, ex_scene (1 / 100000) tetra_in empty_bm) \<and>
   check_bm_degenerate_faces (ex_scene (1 / 100000) tetra_in empty_bm) (ex_ob ''A'' [Some steel] (0, 0, 0))
       tetra_in (1 / 100000) (1 / 100000) False =
     (Inr (), tetra_in, ex_scene (1 / 100000) tetra_in empty_bm) \<and>
   check_bm_loose_vertices (ex_scene (1 / 100000) tetra_in empty_bm) (ex_ob ''A'' [Some steel] (0, 0, 0))
       tetra_in (1 / 100000) (1 / 100000) False =
     (Inr (), tetra_in, ex_scene (1 / 100000) tetra_in empty_bm) \<and>
   check_bm_duplicate_vertices (ex_scene (1 / 100000) tetra_in empty_bm) (ex_ob ''A'' [Some steel] (0, 0, 0))
       tetra_in (1 / 100000) (1 / 100000) False =
     (Inr (), tetra_in, ex_scene (1 / 100000) tetra_in empty_bm) \<and>
   check_bm_normals ex_host (ex_scene (1 / 100000) tetra_in empty_bm) (ex_ob ''A'' [Some steel] (0, 0, 0))
       tetra_in (1 / 100000) (1 / 100000) True =
     (Inr (), tetra_in, ex_scene (1 / 100000) tetra_in empty_bm) \<and>
   check_bm_normals ex_host (ex_scene (1 / 100000) tetra_in empty_bm) (ex_ob ''A'' [Some steel] (0, 0, 0))
       tetra_in (1 / 100000) (1 / 100000) False =
     (Inr (), recalc_face_normals ex_host tetra_in, ex_scene (1 / 100000) tetra_in empty_bm)"
proof -
  let ?cx = "ex_scene (1 / 100000) tetra_in empty_bm"
  let ?ob = "ex_ob ''A'' [Some steel] (0, 0, 0)"
  note F = checks_leave_mesh_unless_recalc[of tetra_in ?cx ?ob "1 / 100000" "1 / 100000" False ex_host]
  note T = checks_leave_mesh_unless_recalc[of tetra_in ?cx ?ob "1 / 100000" "1 / 100000" True ex_host]
  from F tetra_in_bad tetra_in_no_duplicates
  have "check_bm_manifold_verts ?cx ?ob tetra_in (1 / 100000) (1 / 100000) False = (Inr (), tetra_in, ?cx)"
    "check_bm_manifold_edges ?cx ?ob tetra_in (1 / 100000) (1 / 100000) False = (Inr (), tetra_in, ?cx)"
    "check_bm_degenerate_edges ?cx ?ob tetra_in (1 / 100000) (1 / 100000) False = (Inr (), tetra_in, ?cx)"
    "check_bm_degenerate_faces ?cx ?ob tetra_in (1 / 100000) (1 / 100000) False = (Inr (), tetra_in, ?cx)"
    "check_bm_loose_vertices ?cx ?ob tetra_in (1 / 100000) (1 / 100000) False = (Inr (), tetra_in, ?cx)"
    "check_bm_duplicate_vertices ?cx ?ob tetra_in (1 / 100000) (1 / 100000) False = (Inr (), tetra_in, ?cx)"
    "check_bm_normals ex_host ?cx ?ob tetra_in (1 / 100000) (1 / 100000) False =
       (Inr (), recalc_face_normals ex_host tetra_in, ?cx)"
    by simp_all
  moreover from T tetra_in_bad
  have "check_bm_normals ex_host ?cx ?ob tetra_in (1 / 100000) (1 / 100000) True = (Inr (), tetra_in, ?cx)"
    by simp
  ultimately show ?thesis by blast
qed

text \<open>
  C2 as stated fails: the tetrahedron wound inside out has no inconsistent edge, and the
  normals check with \<open>protect\<close> false returns it with every face flipped.
\<close>

theorem normals_check_changes_mesh:
  "bad_normal_edges tetra_in = [] \<and>
   check_bm_normals ex_host (ex_scene (1 / 100000) tetra_in empty_bm) (ex_ob ''A'' [Some steel] (0, 0, 0))
       tetra_in (1 / 100000) (1 / 100000) False =
     (Inr (), tetra_out, ex_scene (1 / 100000) tetra_in empty_bm) \<and>
   faces tetra_out \<noteq> faces tetra_in"
  using tetra_in_differs
  by (simp add: check_bm_normals_def tetra_in_bad recalc_tetra_in)

section \<open>Protected failures\<close>

lemma snd_get_trisurface: "snd (get_trisurface H cx ob s check terrain) = cx"
proof (cases "get_materials cx ob")
  case (Inl e)
  then show ?thesis by (simp add: get_trisurface_material_failure)
next
  case mas: (Inr mas)
  show ?thesis
  proof (cases "get_object_bmesh H cx ob None True True False")
    case (Inl e)
    then show ?thesis using mas by (simp add: get_trisurface_no_bmesh)
  next
    case (Inr bm)
    show ?thesis unfolding get_trisurface_unfold[OF mas Inr] by (simp split: sum.splits)
  qed
qed

lemma snd_check_geom_quality_protect: "snd (check_geom_quality H cx ob True) = cx"
proof (cases "get_object_bmesh H cx ob None False True True")
  case (Inl e)
  then show ?thesis by (simp add: check_geom_quality_def)
next
  case (Inr bm)
  show ?thesis
    by (rule check_bm_quality_protect_cases[of H cx ob bm]) (simp_all add: check_geom_quality_def Inr)
qed

lemma snd_check_intersections_protect:
  "snd (check_intersections H cx ob other_obs True) = mode_set_object cx"
  by (simp add: check_intersections_def Let_def raise_bad_geometry_protect split: sum.splits)

text \<open>
  C10 (as amended).  With \<open>protect\<close>, \<open>raise_bad_geometry\<close> raises \<^verbatim>\<open>BFException\<close>
  with the message it was given at once: the mesh and the scene are returned untouched
  (no selection changed, no modifier removed, no mesh data written).  Hence with
  \<open>protect\<close> every quality check, the validator,
  \<open>check_geom_quality\<close> and \<open>get_trisurface\<close> leave mesh and scene exactly as they
  were, whether they fail or not.  \<open>check_intersections\<close> with \<open>protect\<close> leaves the
  modifiers, the mesh data, the selection, the active object and the select mode as they
  were; the scene it leaves differs from the one it was given only in that the host has
  been put into object mode on entry, when there is an active object.
\<close>

theorem protected_failure_leaves_state:
  "raise_bad_geometry cx ob bm msg True bv be bf = (Inl (BFException (ob_name ob) msg), bm, cx) \<and>
   snd (check_bm_manifold_verts cx ob bm el ea True) = (bm, cx) \<and>
   snd (check_bm_manifold_edges cx ob bm el ea True) = (bm, cx) \<and>
   snd (check_bm_degenerate_edges cx ob bm el ea True) = (bm, cx) \<and>
   snd (check_bm_degenerate_faces cx ob bm el ea True) = (bm, cx) \<and>
   snd (check_bm_loose_vertices cx ob bm el ea True) = (bm, cx) \<and>
   snd (check_bm_duplicate_vertices cx ob bm el ea True) = (bm, cx) \<and>
   snd (check_bm_normals H cx ob bm el ea True) = (bm, cx) \<and>
   snd (check_bm_quality H cx ob bm True) = (bm, cx) \<and>
   snd (check_geom_quality H cx ob True) = cx \<and>
   snd (get_trisurface H cx ob s check terrain) = cx \<and>
   snd (check_intersections H cx ob other_obs True) =
     (if active_object cx \<noteq> None then cx\<lparr>mode := OBJECT\<rparr> else cx) \<and>
   ob_modifiers (snd (check_intersections H cx ob other_obs True)) = ob_modifiers cx \<and>
   ob_data (snd (check_intersections H cx ob other_obs True)) = ob_data cx \<and>
   selected_objects (snd (check_intersections H cx ob other_obs True)) = selected_objects cx \<and>
   active_object (snd (check_intersections H cx ob other_obs True)) = active_object cx \<and>
   mesh_select_mode (snd (check_intersections H cx ob other_obs True)) = mesh_select_mode cx"
  by (simp add: raise_bad_geometry_protect snd_check_protect
      snd_check_bm_quality_protect snd_check_geom_quality_protect snd_get_trisurface
      snd_check_intersections_protect mode_set_object_def)

text \<open>
  Without \<open>protect\<close> a failure changes the host: when the mesh of the object is in edit
  mode the function ends in the \<^verbatim>\<open>ValueError\<close> of \<^verbatim>\<open>to_mesh\<close>, with the modifiers
  cleared; otherwise the object ends up alone selected, active and in edit mode.
\<close>

lemma is_editmode_modifiers [simp]:
  "is_editmode (cx\<lparr>ob_modifiers := m\<rparr>) ob = is_editmode cx ob"
  by (simp add: is_editmode_def)

lemma unprotected_failure_in_edit_mode:
  assumes "is_editmode cx ob"
  shows "fst (raise_bad_geometry cx ob bm msg False bv be bf) = Inl ValueError"
    and "snd (snd (raise_bad_geometry cx ob bm msg False bv be bf)) =
           cx\<lparr>ob_modifiers := (ob_modifiers cx)(ob_name ob := [])\<rparr>"
  using assms by (simp_all add: raise_bad_geometry_def Let_def)

lemma unprotected_failure_changes_state:
  assumes "\<not> is_editmode cx ob"
  shows "ob_modifiers (snd (snd (raise_bad_geometry cx ob bm msg False bv be bf))) (ob_name ob) = []"
    and "mode (snd (snd (raise_bad_geometry cx ob bm msg False bv be bf))) = EDIT"
    and "selected_objects (snd (snd (raise_bad_geometry cx ob bm msg False bv be bf))) = [ob_name ob]"
    and "active_object (snd (snd (raise_bad_geometry cx ob bm msg False bv be bf))) = Some (ob_name ob)"
    and "is_valid (fst (snd (raise_bad_geometry cx ob bm msg False bv be bf))) = False"
  using assms by (simp_all add: raise_bad_geometry_def Let_def)

lemmas host_defs = ex_host_def ex_get_object_bmesh_def ex_FromBMesh_def face_bounds_def
  boxes_meet_def ex_overlap_def vadd_def vmin_def vmax_def vle_def translate_bm_def

lemma crossing_tree:
  "FromBMesh ex_host crossing_tris (1 / 100000) =
     [([0, 1, 2], (- (1 / 100000), - (1 / 100000), - (1 / 100000)),
                  (1 + 1 / 100000, 1 + 1 / 100000, 1 / 100000)),
      ([3, 4, 5], (2 / 10 - 1 / 100000, 2 / 10 - 1 / 100000, - (5 / 10) - 1 / 100000),
                  (8 / 10 + 1 / 100000, 2 / 10 + 1 / 100000, 5 / 10 + 1 / 100000))]"
  by (simp add: host_defs ex_defs)

lemma crossing_overlap:
  "overlap ex_host (FromBMesh ex_host crossing_tris (1 / 100000))
     (FromBMesh ex_host crossing_tris (1 / 100000)) = [(0, 1), (1, 0)]"
  unfolding crossing_tree by (simp add: host_defs)

lemma crossing_self_faces:
  "get_bm_intersected_faces ex_host crossing_tris (FromBMesh ex_host crossing_tris (1 / 100000))
     (FromBMesh ex_host crossing_tris (1 / 100000)) = Inr [0, 1]"
  unfolding get_bm_intersected_faces_def crossing_overlap by (simp add: ex_defs)

lemma crossing_get:
  "get_object_bmesh ex_host (mode_set_object (ex_scene (1 / 100000) crossing_tris empty_bm))
     (ex_ob ''A'' slots w) None False False True = Inr crossing_tris"
  by (simp add: ex_host_def ex_get_object_bmesh_def mode_set_object_def ex_scene_def ex_ob_def)

text \<open>
  C10 as stated fails for intersections: started in edit mode on two triangles that pass
  through each other, \<open>check_intersections\<close> with \<open>protect\<close> raises and leaves the
  scene in object mode.
\<close>

theorem intersection_failure_changes_mode:
  "fst (check_intersections ex_host (ex_scene (1 / 100000) crossing_tris empty_bm)
          (ex_ob ''A'' [Some steel] (0, 0, 0)) [] True) =
     Inl (BFException ''A'' ''Intersection detected.'') \<and>
   mode (ex_scene (1 / 100000) crossing_tris empty_bm) = EDIT \<and>
   mode (snd (check_intersections ex_host (ex_scene (1 / 100000) crossing_tris empty_bm)
          (ex_ob ''A'' [Some steel] (0, 0, 0)) [] True)) = OBJECT"
proof -
  let ?cx = "ex_scene (1 / 100000) crossing_tris empty_bm"
  have tol: "bf_config_min_edge_length (mode_set_object ?cx) = 1 / 100000"
    by (simp add: mode_set_object_def ex_scene_def)
  have "check_intersections ex_host ?cx (ex_ob ''A'' [Some steel] (0, 0, 0)) [] True =
      (Inl (BFException ''A'' ''Intersection detected.''), mode_set_object ?cx)"
    unfolding check_intersections_def Let_def tol crossing_get
    by (simp add: crossing_self_faces raise_bad_geometry_protect ex_ob_def)
  then show ?thesis by (simp add: mode_set_object_def ex_scene_def)
qed

section \<open>Intersections with other objects\<close>

text \<open>
  What \<open>get_bm_intersected_faces\<close> returns are the first components of the
  overlapping pairs, each once: the faces of the first tree that take part in a pair.
  The loop over the other objects, however, asks \<open>get_object_bmesh\<close> for the mesh of
  \<open>ob\<close> itself, so nothing of another object but its world matrix reaches the result.
\<close>

lemma get_bm_intersected_faces_Inr:
  assumes "get_bm_intersected_faces H bm tree other_tree = Inr fs"
  shows "distinct fs" and "set fs = fst ` set (overlap H tree other_tree)"
    and "list_all (\<lambda>iface. iface < length (faces bm)) fs"
  using assms
  by (auto simp: get_bm_intersected_faces_def Let_def rev_image_eqI split: if_splits)

lemma check_others_ignores_other_meshes:
  "check_others H cx ob bm tree eps others bad =
     check_others H cx ob bm tree eps (map (\<lambda>other. ob\<lparr>matrix_world := matrix_world other\<rparr>) others) bad"
  by (induction others arbitrary: bad) (auto split: option.splits sum.splits)

lemma check_intersections_ignores_other_meshes:
  "check_intersections H cx ob others protect =
     check_intersections H cx ob (map (\<lambda>other. ob\<lparr>matrix_world := matrix_world other\<rparr>) others) protect"
  unfolding check_intersections_def
  by (subst check_others_ignores_other_meshes) (rule refl)

lemma tetra_tree:
  "FromBMesh ex_host tetra_out (1 / 100000) =
     [([0, 2, 1], (- (1 / 100000), - (1 / 100000), - (1 / 100000)), (1 + 1 / 100000, 1 + 1 / 100000, 1 / 100000)),
      ([0, 1, 3], (- (1 / 100000), - (1 / 100000), - (1 / 100000)), (1 + 1 / 100000, 1 / 100000, 1 + 1 / 100000)),
      ([0, 3, 2], (- (1 / 100000), - (1 / 100000), - (1 / 100000)), (1 / 100000, 1 + 1 / 100000, 1 + 1 / 100000)),
      ([1, 2, 3], (- (1 / 100000), - (1 / 100000), - (1 / 100000)),
                  (1 + 1 / 100000, 1 + 1 / 100000, 1 + 1 / 100000))]"
  by (simp add: host_defs ex_defs)

lemma tetra_moved_tree:
  "FromBMesh ex_host (translate_bm (10, 0, 0) tetra_out) (1 / 100000) =
     [([0, 2, 1], (10 - 1 / 100000, - (1 / 100000), - (1 / 100000)), (11 + 1 / 100000, 1 + 1 / 100000, 1 / 100000)),
      ([0, 1, 3], (10 - 1 / 100000, - (1 / 100000), - (1 / 100000)), (11 + 1 / 100000, 1 / 100000, 1 + 1 / 100000)),
      ([0, 3, 2], (10 - 1 / 100000, - (1 / 100000), - (1 / 100000)), (10 + 1 / 100000, 1 + 1 / 100000, 1 + 1 / 100000)),
      ([1, 2, 3], (10 - 1 / 100000, - (1 / 100000), - (1 / 100000)),
                  (11 + 1 / 100000, 1 + 1 / 100000, 1 + 1 / 100000))]"
  by (simp add: host_defs ex_defs)

lemma shifted_tree:
  "FromBMesh ex_host (translate_bm (10, 0, 0) shifted_tetra) (1 / 100000) =
     [([0, 2, 1], (1 / 4 - 1 / 100000, 1 / 4 - 1 / 100000, 1 / 4 - 1 / 100000),
                  (5 / 4 + 1 / 100000, 5 / 4 + 1 / 100000, 1 / 4 + 1 / 100000)),
      ([0, 1, 3], (1 / 4 - 1 / 100000, 1 / 4 - 1 / 100000, 1 / 4 - 1 / 100000),
                  (5 / 4 + 1 / 100000, 1 / 4 + 1 / 100000, 5 / 4 + 1 / 100000)),
      ([0, 3, 2], (1 / 4 - 1 / 100000, 1 / 4 - 1 / 100000, 1 / 4 - 1 / 100000),
                  (1 / 4 + 1 / 100000, 5 / 4 + 1 / 100000, 5 / 4 + 1 / 100000)),
      ([1, 2, 3], (1 / 4 - 1 / 100000, 1 / 4 - 1 / 100000, 1 / 4 - 1 / 100000),
                  (5 / 4 + 1 / 100000, 5 / 4 + 1 / 100000, 5 / 4 + 1 / 100000))]"
  by (simp add: host_defs ex_defs shifted_tetra_def)

lemma tetra_self_faces:
  "get_bm_intersected_faces ex_host tetra_out (FromBMesh ex_host tetra_out (1 / 100000))
     (FromBMesh ex_host tetra_out (1 / 100000)) = Inr []"
  unfolding get_bm_intersected_faces_def tetra_tree by (simp add: host_defs)

lemma tetra_moved_faces:
  "get_bm_intersected_faces ex_host tetra_out (FromBMesh ex_host tetra_out (1 / 100000))
     (FromBMesh ex_host (translate_bm (10, 0, 0) tetra_out) (1 / 100000)) = Inr []"
  unfolding get_bm_intersected_faces_def tetra_tree tetra_moved_tree by (simp add: host_defs)

lemma tetra_shifted_faces:
  "get_bm_intersected_faces ex_host tetra_out (FromBMesh ex_host tetra_out (1 / 100000))
     (FromBMesh ex_host (translate_bm (10, 0, 0) shifted_tetra) (1 / 100000)) = Inr [3]"
  unfolding get_bm_intersected_faces_def tetra_tree shifted_tree by (simp add: host_defs ex_defs)

lemma two_objects_get:
  "get_object_bmesh ex_host (mode_set_object (ex_scene (1 / 100000) tetra_out shifted_tetra))
     (ex_ob ''A'' slots w) None False False True = Inr tetra_out"
  "get_object_bmesh ex_host (mode_set_object (ex_scene (1 / 100000) tetra_out shifted_tetra))
     (ex_ob ''A'' slots w) (Some m) False False True = Inr (translate_bm m tetra_out)"
  "get_object_bmesh ex_host (mode_set_object (ex_scene (1 / 100000) tetra_out shifted_tetra))
     (ex_ob ''B'' slots w) (Some m) False False True = Inr (translate_bm m shifted_tetra)"
  by (simp_all add: ex_host_def ex_get_object_bmesh_def mode_set_object_def ex_scene_def ex_ob_def)

lemma relative_matrix:
  "inverted ex_host (matrix_world (ex_ob ''A'' slots (0, 0, 0))) = Some (0, 0, 0)"
  "matmul ex_host (0, 0, 0) (matrix_world (ex_ob ''B'' slots' (10, 0, 0))) = (10, 0, 0)"
  by (simp_all add: ex_host_def ex_ob_def vneg_def vadd_def)

text \<open>
  C3, at a failing input.  The object \<open>B\<close> passes through \<open>A\<close>.  With the mesh of
  \<open>B\<close> transformed into the frame of \<open>A\<close>, as the claim has it, face 3 of \<open>A\<close> is
  reported; the code transforms the mesh of \<open>A\<close> instead, finds nothing, and
  \<open>check_intersections\<close> returns normally.
\<close>

theorem other_mesh_not_used:
  "check_others ex_host (mode_set_object (ex_scene (1 / 100000) tetra_out shifted_tetra))
       (ex_ob ''A'' [Some steel] (0, 0, 0)) tetra_out (FromBMesh ex_host tetra_out (1 / 100000))
       (1 / 100000) [ex_ob ''B'' [Some steel] (10, 0, 0)] [] = Inr [] \<and>
   check_others_spec ex_host (mode_set_object (ex_scene (1 / 100000) tetra_out shifted_tetra))
       (ex_ob ''A'' [Some steel] (0, 0, 0)) tetra_out (FromBMesh ex_host tetra_out (1 / 100000))
       (1 / 100000) [ex_ob ''B'' [Some steel] (10, 0, 0)] [] = Inr [3] \<and>
   fst (check_intersections ex_host (ex_scene (1 / 100000) tetra_out shifted_tetra)
          (ex_ob ''A'' [Some steel] (0, 0, 0)) [ex_ob ''B'' [Some steel] (10, 0, 0)] True) = Inr ()"
proof -
  let ?cx = "ex_scene (1 / 100000) tetra_out shifted_tetra"
  let ?A = "ex_ob ''A'' [Some steel] (0, 0, 0)"
  let ?B = "ex_ob ''B'' [Some steel] (10, 0, 0)"
  let ?tree = "FromBMesh ex_host tetra_out (1 / 100000)"
  have tol: "bf_config_min_edge_length (mode_set_object ?cx) = 1 / 100000"
    by (simp add: mode_set_object_def ex_scene_def)
  have code: "check_others ex_host (mode_set_object ?cx) ?A tetra_out ?tree (1 / 100000) [?B] [] = Inr []"
    by (simp add: relative_matrix two_objects_get tetra_moved_faces)
  have spec: "check_others_spec ex_host (mode_set_object ?cx) ?A tetra_out ?tree (1 / 100000) [?B] [] = Inr [3]"
    by (simp add: relative_matrix two_objects_get tetra_shifted_faces)
  have "check_intersections ex_host ?cx ?A [?B] True = (Inr (), mode_set_object ?cx)"
    unfolding check_intersections_def Let_def tol two_objects_get
    by (simp add: tetra_self_faces relative_matrix two_objects_get tetra_moved_faces)
  with code spec show ?thesis by simp
qed

end
